theory Spec2Isabelle
  imports Complex_Main "HOL-Library.Stream" "HOL-Library.Multiset"
begin

section \<open>Geometric synthetic data generator\<close>

text \<open>
  The module \<^verbatim>\<open>metal/contrib/slicing/synthetics/geometric_synthetics.py\<close> is embedded
  function by function. A number is a Python scalar or a numpy scalar, and its value is an
  exact real: rounding is outside the model. The two kinds differ where the module
  divides: a Python scalar divided by zero raises \<^verbatim>\<open>ZeroDivisionError\<close>, while a
  division with a numpy operand gives an infinity or NaN (with a warning) and goes on.
  The rows of the point array \<open>X\<close> are numpy scalars. Integer arrays hold 64-bit values:
  \<^verbatim>\<open>astype(int)\<close> wraps what does not fit. Every exception the module can raise is a
  value of \<open>pyerr\<close>, and a function that may raise returns \<open>pyerr + 'a\<close>.
\<close>

subsection \<open>Errors\<close>

datatype pyerr =
    AssertionError
  | ZeroDivisionError
  | IndexError
  | ValueError
  | OverflowError
  | FlipAbstain
  | UnrecognizedSliceSource

subsection \<open>Numbers\<close>

text \<open>
  A scalar with its kind. The result of an arithmetic operation is a numpy scalar as soon
  as one operand is.
\<close>

datatype scalar = Py real | Np real

fun val :: "scalar \<Rightarrow> real" where
  "val (Py v) = v"
| "val (Np v) = v"

fun is_numpy :: "scalar \<Rightarrow> bool" where
  "is_numpy (Py v) = False"
| "is_numpy (Np v) = True"


text \<open>\<open>(l + r) / 2\<close> on scalars.\<close>

definition midpoint :: "scalar \<Rightarrow> scalar \<Rightarrow> scalar" where
  "midpoint l r =
     (if is_numpy l \<or> is_numpy r then Np ((val l + val r) / 2) else Py ((val l + val r) / 2))"

text \<open>
  A point as \<^verbatim>\<open>contains\<close> receives it: a pair of scalars. A row of the array \<open>X\<close> is a
  pair of reals; read out of the array, its entries are numpy scalars.
\<close>

type_synonym point = "scalar \<times> scalar"

type_synonym row = "real \<times> real"

definition np_point :: "row \<Rightarrow> point" where
  "np_point p = (Np (fst p), Np (snd p))"

text \<open>
  The result of a division: a finite value, or what numpy returns on a zero divisor.
  \<^verbatim>\<open>truediv numpy u v\<close> is \<^verbatim>\<open>u / v\<close>, where \<open>numpy\<close> says that an operand is a numpy
  scalar.
\<close>

datatype quotient = Finite real | PosInf | NegInf | NaN

definition truediv :: "bool \<Rightarrow> real \<Rightarrow> real \<Rightarrow> pyerr + quotient" where
  "truediv numpy u v =
     (if v \<noteq> 0 then Inr (Finite (u / v))
      else if \<not> numpy then Inl ZeroDivisionError
      else if u = 0 then Inr NaN
      else if 0 < u then Inr PosInf
      else Inr NegInf)"

fun quotient_add :: "quotient \<Rightarrow> quotient \<Rightarrow> quotient" where
  "quotient_add (Finite u) (Finite v) = Finite (u + v)"
| "quotient_add NaN q = NaN"
| "quotient_add q NaN = NaN"
| "quotient_add PosInf NegInf = NaN"
| "quotient_add NegInf PosInf = NaN"
| "quotient_add PosInf q = PosInf"
| "quotient_add q PosInf = PosInf"
| "quotient_add NegInf q = NegInf"
| "quotient_add q NegInf = NegInf"

text \<open>\<^verbatim>\<open>q < c\<close> for a finite \<open>c\<close>: every comparison with NaN is false.\<close>

fun quotient_less :: "quotient \<Rightarrow> real \<Rightarrow> bool" where
  "quotient_less (Finite u) c = (u < c)"
| "quotient_less PosInf c = False"
| "quotient_less NegInf c = True"
| "quotient_less NaN c = False"

subsection \<open>Regions\<close>

text \<open>
  \<^verbatim>\<open>Rectangle\<close> stores the fields \<open>b, t, l, r\<close> in this order, \<^verbatim>\<open>Ellipse\<close> the
  fields \<open>h, k, a, b\<close>. \<^verbatim>\<open>Square\<close> and \<^verbatim>\<open>Circle\<close> are subclasses that add no field,
  so they are constructors of the same two variants.
\<close>

datatype region =
    Rectangle scalar scalar scalar scalar
  | Ellipse scalar scalar scalar scalar

definition Rectangle_init :: "scalar \<Rightarrow> scalar \<Rightarrow> scalar \<Rightarrow> scalar \<Rightarrow> pyerr + region" where
  "Rectangle_init b t l r =
     (if \<not> val b < val t then Inl AssertionError
      else if \<not> val l < val r then Inl AssertionError
      else Inr (Rectangle b t l r))"

definition Square_init :: "scalar \<Rightarrow> scalar \<Rightarrow> scalar \<Rightarrow> scalar \<Rightarrow> pyerr + region" where
  "Square_init b t l r =
     (case Rectangle_init b t l r of
        Inl e \<Rightarrow> Inl e
      | Inr sq \<Rightarrow> if val t - val b = val r - val l then Inr sq else Inl AssertionError)"


definition Circle_init :: "scalar \<Rightarrow> scalar \<Rightarrow> scalar \<Rightarrow> pyerr + region" where
  "Circle_init h k r = Inr (Ellipse h k r r)"

text \<open>
  \<^verbatim>\<open>contains\<close>. In the ellipse the left quotient is evaluated before the right one, as
  Python evaluates the operands of \<^verbatim>\<open>+\<close>. The left division has a numpy operand when
  \<open>x\<close>, \<open>h\<close> or \<open>a\<close> is a numpy scalar, the right one when \<open>y\<close>, \<open>k\<close> or \<open>b\<close> is.
\<close>

fun contains :: "region \<Rightarrow> point \<Rightarrow> pyerr + bool" where
  "contains (Rectangle b t l r) (x, y) =
     Inr (val x > val b \<and> val x < val t \<and> val y > val l \<and> val y < val r)"
| "contains (Ellipse h k a b) (x, y) =
     (case truediv (is_numpy x \<or> is_numpy h \<or> is_numpy a) ((val x - val h) ^ 2) (val a ^ 2) of
        Inl e \<Rightarrow> Inl e
      | Inr u \<Rightarrow>
          (case truediv (is_numpy y \<or> is_numpy k \<or> is_numpy b) ((val y - val k) ^ 2) (val b ^ 2) of
             Inl e \<Rightarrow> Inl e
           | Inr v \<Rightarrow> Inr (quotient_less (quotient_add u v) 1)))"

fun center :: "region \<Rightarrow> point" where
  "center (Rectangle b t l r) = (midpoint l r, midpoint b t)"
| "center (Ellipse h k a b) = (h, k)"

subsection \<open>Random generators\<close>

text \<open>
  The module draws from two process-wide generators: Python's \<^verbatim>\<open>random\<close> and numpy's
  \<^verbatim>\<open>np.random\<close>; \<^verbatim>\<open>generate_dataset\<close> also seeds a third, torch's. Neither library is
  part of the repository. Each generator is modelled as the stream of raw numbers it will
  produce, and each library call as a function that consumes the head of the stream and
  returns a value in the range its documentation gives: \<^verbatim>\<open>random.random()\<close> in
  \<open>[0, 1)\<close>, \<^verbatim>\<open>uniform(lo, hi)\<close> as \<open>lo + (hi - lo) * u\<close> with \<open>u\<close> in \<open>[0, 1)\<close>,
  \<^verbatim>\<open>choice(range(n))\<close> in \<open>0..<n\<close>, \<^verbatim>\<open>randint(lo, hi)\<close> in \<open>lo..<hi\<close>.
\<close>

record rng =
  py_random :: "nat stream"
  np_random :: "nat stream"
  torch_random :: "nat stream"

definition unit_interval :: "nat \<Rightarrow> real" where
  "unit_interval w = real (w mod 2 ^ 53) / 2 ^ 53"

definition random_random :: "rng \<Rightarrow> real \<times> rng" where
  "random_random g =
     (unit_interval (shd (py_random g)), g\<lparr>py_random := stl (py_random g)\<rparr>)"

definition np_uniform :: "real \<Rightarrow> real \<Rightarrow> rng \<Rightarrow> real \<times> rng" where
  "np_uniform lo hi g =
     (lo + (hi - lo) * unit_interval (shd (np_random g)),
      g\<lparr>np_random := stl (np_random g)\<rparr>)"

text \<open>\<^verbatim>\<open>np.random.uniform(lo, hi, size)\<close>: \<open>size\<close> draws in sequence.\<close>

primrec np_uniform_vec :: "real \<Rightarrow> real \<Rightarrow> nat \<Rightarrow> rng \<Rightarrow> real list \<times> rng" where
  "np_uniform_vec lo hi 0 g = ([], g)"
| "np_uniform_vec lo hi (Suc d) g =
     (case np_uniform lo hi g of
        (u, g1) \<Rightarrow> (case np_uniform_vec lo hi d g1 of (us, g2) \<Rightarrow> (u # us, g2)))"

text \<open>\<^verbatim>\<open>np.random.choice(range(n))\<close>: raises \<^verbatim>\<open>ValueError\<close> on an empty range.\<close>

definition np_choice :: "nat \<Rightarrow> rng \<Rightarrow> pyerr + nat \<times> rng" where
  "np_choice n g =
     (if n = 0 then Inl ValueError
      else Inr (shd (np_random g) mod n, g\<lparr>np_random := stl (np_random g)\<rparr>))"

text \<open>
  \<^verbatim>\<open>np.random.choice(range(n), size)\<close>, with replacement: an empty range is an error
  unless no sample is taken.
\<close>

primrec np_choice_many :: "nat \<Rightarrow> nat \<Rightarrow> rng \<Rightarrow> pyerr + nat list \<times> rng" where
  "np_choice_many n 0 g = Inr ([], g)"
| "np_choice_many n (Suc c) g =
     (case np_choice n g of
        Inl e \<Rightarrow> Inl e
      | Inr (i, g1) \<Rightarrow>
          (case np_choice_many n c g1 of
             Inl e \<Rightarrow> Inl e
           | Inr (js, g2) \<Rightarrow> Inr (i # js, g2)))"

text \<open>
  \<^verbatim>\<open>np.random.choice(a, size, replace=False)\<close>: a sample larger than the population is a
  \<^verbatim>\<open>ValueError\<close>; otherwise \<open>size\<close> elements at distinct positions.
\<close>

primrec draw_distinct :: "'a list \<Rightarrow> nat \<Rightarrow> rng \<Rightarrow> 'a list \<times> rng" where
  "draw_distinct pool 0 g = ([], g)"
| "draw_distinct pool (Suc c) g =
     (let i = shd (np_random g) mod length pool;
          g1 = g\<lparr>np_random := stl (np_random g)\<rparr>
      in case draw_distinct (take i pool @ drop (Suc i) pool) c g1 of
           (picked, g2) \<Rightarrow> (pool ! i # picked, g2))"

definition np_choice_noreplace :: "'a list \<Rightarrow> nat \<Rightarrow> rng \<Rightarrow> pyerr + 'a list \<times> rng" where
  "np_choice_noreplace pool c g =
     (if length pool < c then Inl ValueError else Inr (draw_distinct pool c g))"

text \<open>\<^verbatim>\<open>np.random.randint(lo, hi)\<close>: an integer in \<open>lo..<hi\<close>, \<^verbatim>\<open>ValueError\<close> if there is none.\<close>

definition np_randint :: "int \<Rightarrow> int \<Rightarrow> rng \<Rightarrow> pyerr + int \<times> rng" where
  "np_randint lo hi g =
     (if hi \<le> lo then Inl ValueError
      else Inr (lo + int (shd (np_random g) mod nat (hi - lo)),
                g\<lparr>np_random := stl (np_random g)\<rparr>))"

subsection \<open>Indexing\<close>

text \<open>Python's \<^verbatim>\<open>xs[i]\<close>: a negative index counts from the end, out of range raises.\<close>

definition py_index :: "'a list \<Rightarrow> int \<Rightarrow> pyerr + 'a" where
  "py_index xs i =
     (if 0 \<le> i \<and> i < int (length xs) then Inr (xs ! nat i)
      else if i < 0 \<and> - int (length xs) \<le> i then Inr (xs ! nat (int (length xs) + i))
      else Inl IndexError)"

subsection \<open>Integer arrays\<close>

text \<open>
  The values of an integer array are modelled as a list of integers. \<^verbatim>\<open>np.full(n, k)\<close>
  holds \<open>k\<close> in the narrowest of the types int64, uint64 and object that takes it.
  \<^verbatim>\<open>astype(int)\<close> converts every element to int64: a value of the int64 range is kept,
  a larger uint64 value wraps around, and a Python integer outside both ranges raises
  \<^verbatim>\<open>OverflowError\<close>.
\<close>

definition to_int64 :: "int \<Rightarrow> pyerr + int" where
  "to_int64 v =
     (if - (2 ^ 63) \<le> v \<and> v < 2 ^ 63 then Inr v
      else if 2 ^ 63 \<le> v \<and> v < 2 ^ 64 then Inr (v - 2 ^ 64)
      else Inl OverflowError)"

fun astype_int :: "int list \<Rightarrow> pyerr + int list" where
  "astype_int [] = Inr []"
| "astype_int (v # vs) =
     (case to_int64 v of
        Inl e \<Rightarrow> Inl e
      | Inr w \<Rightarrow> (case astype_int vs of Inl e \<Rightarrow> Inl e | Inr ws \<Rightarrow> Inr (w # ws)))"

subsection \<open>Building blocks\<close>

definition flip :: "int \<Rightarrow> pyerr + int" where
  "flip y = (if y = 0 then Inl FlipAbstain else Inr (if y = 2 then 1 else 2))"

text \<open>
  The loop of \<^verbatim>\<open>assign_y\<close> walks \<open>X\<close> with an index and writes \<open>Y[i]\<close> in place; a
  write beyond the end of \<open>Y\<close> raises \<^verbatim>\<open>IndexError\<close>. The arrays that the module
  writes a label other than 1 to are int64 arrays, where a label that does not fit raises
  \<^verbatim>\<open>OverflowError\<close>.
\<close>

fun assign_y_loop :: "row list \<Rightarrow> int list \<Rightarrow> region \<Rightarrow> int \<Rightarrow> pyerr + int list" where
  "assign_y_loop [] Y region label = Inr Y"
| "assign_y_loop (x # X) Y region label =
     (case contains region (np_point x) of
        Inl e \<Rightarrow> Inl e
      | Inr inside \<Rightarrow>
          (case Y of
             [] \<Rightarrow> if inside then Inl IndexError else assign_y_loop X [] region label
           | y # Y' \<Rightarrow>
               if inside \<and> \<not> (- (2 ^ 63) \<le> label \<and> label < 2 ^ 63) then Inl OverflowError
               else
                 (case assign_y_loop X Y' region label of
                    Inl e \<Rightarrow> Inl e
                  | Inr R \<Rightarrow> Inr ((if inside then label else y) # R))))"

text \<open>\<^verbatim>\<open>assign_y\<close>: the loop, then \<^verbatim>\<open>Y.astype(int)\<close>.\<close>

definition assign_y :: "row list \<Rightarrow> int list \<Rightarrow> region \<Rightarrow> int \<Rightarrow> pyerr + int list" where
  "assign_y X Y region label =
     (case assign_y_loop X Y region label of
        Inl e \<Rightarrow> Inl e
      | Inr Y' \<Rightarrow> astype_int Y')"

text \<open>
  \<^verbatim>\<open>assign_l\<close>: the vote vector of one labeling function. It has the length of \<open>Y\<close>; the
  loop runs over \<^verbatim>\<open>zip(X, Y)\<close>. The draw is the left operand of each comparison, so it is
  made before the vector is indexed.
\<close>

definition cons_vote :: "int \<Rightarrow> pyerr + int list \<times> rng \<Rightarrow> pyerr + int list \<times> rng" where
  "cons_vote v res = (case res of Inl e \<Rightarrow> Inl e | Inr (vs, g) \<Rightarrow> Inr (v # vs, g))"

fun assign_l ::
  "row list \<Rightarrow> int list \<Rightarrow> region \<Rightarrow> real list \<Rightarrow> real list \<Rightarrow> rng \<Rightarrow> pyerr + int list \<times> rng"
where
  "assign_l X [] region props accs g = Inr ([], g)"
| "assign_l [] (y # Y) region props accs g = Inr (replicate (Suc (length Y)) 0, g)"
| "assign_l (x # X) (y # Y) region props accs g =
     (case contains region (np_point x) of
        Inl e \<Rightarrow> Inl e
      | Inr inside \<Rightarrow>
          if inside then
            (case random_random g of
               (u1, g1) \<Rightarrow>
                 (case py_index props (y - 1) of
                    Inl e \<Rightarrow> Inl e
                  | Inr p \<Rightarrow>
                      if u1 < p then
                        (case random_random g1 of
                           (u2, g2) \<Rightarrow>
                             (case py_index accs (y - 1) of
                                Inl e \<Rightarrow> Inl e
                              | Inr q \<Rightarrow>
                                  if u2 < q then cons_vote y (assign_l X Y region props accs g2)
                                  else
                                    (case flip y of
                                       Inl e \<Rightarrow> Inl e
                                     | Inr f \<Rightarrow> cons_vote f (assign_l X Y region props accs g2))))
                      else cons_vote 0 (assign_l X Y region props accs g1)))
          else cons_vote 0 (assign_l X Y region props accs g))"

subsection \<open>Points\<close>

text \<open>
  \<^verbatim>\<open>np.linspace(lo, hi, num)\<close> and \<^verbatim>\<open>np.ceil(np.sqrt(n))\<close>: the least \<open>s\<close> with
  \<open>n \<le> s * s\<close>, found by counting up. The count that \<^verbatim>\<open>create_points\<close> passes to
  \<^verbatim>\<open>linspace\<close> is a float with an integral value; it is taken as that integer.
\<close>

definition linspace :: "real \<Rightarrow> real \<Rightarrow> nat \<Rightarrow> real list" where
  "linspace lo hi num =
     (if num = 1 then [lo]
      else map (\<lambda>i. lo + real i * ((hi - lo) / real (num - 1))) [0..<num])"

definition ceil_sqrt :: "nat \<Rightarrow> nat" where
  "ceil_sqrt n = length (takeWhile (\<lambda>s. s * s < n) [0..<Suc n])"

text \<open>
  \<^verbatim>\<open>create_points\<close>. In random mode all \<open>x\<close> coordinates are drawn first, then all \<open>y\<close>
  coordinates. In grid mode the outer loop runs over \<open>x\<close> and the result is cut to its
  first \<open>n\<close> rows.
\<close>

definition create_points :: "region \<Rightarrow> nat \<Rightarrow> bool \<Rightarrow> rng \<Rightarrow> pyerr + row list \<times> rng" where
  "create_points rect n random g =
     (case rect of
        Ellipse h k a b \<Rightarrow> Inl AssertionError
      | Rectangle b t l r \<Rightarrow>
          if random then
            (case np_uniform_vec (val l) (val r) n g of
               (xs, g1) \<Rightarrow>
                 (case np_uniform_vec (val b) (val t) n g1 of
                    (ys, g2) \<Rightarrow> Inr (zip xs ys, g2)))
          else
            (let s = ceil_sqrt n
             in Inr (take n (concat (map (\<lambda>x. map (\<lambda>y. (x, y)) (linspace (val b) (val t) s))
                                         (linspace (val l) (val r) s))), g)))"

subsection \<open>Labels\<close>

text \<open>
  One pass of the loop of \<^verbatim>\<open>create_labels\<close>, then the loop, which runs \<open>num_clusters\<close>
  times without using its index. The center is read out of \<open>X\<close>, so its coordinates are
  numpy scalars; a single draw of \<^verbatim>\<open>np.random.uniform\<close> is a Python float.
\<close>

definition label_cluster ::
  "row list \<Rightarrow> real \<Rightarrow> real \<Rightarrow> int list \<times> region list \<times> rng \<Rightarrow>
   pyerr + int list \<times> region list \<times> rng"
where
  "label_cluster X min_a max_a st =
     (case st of
        (Y, regions, g) \<Rightarrow>
          (case np_choice (length X) g of
             Inl e \<Rightarrow> Inl e
           | Inr (i, g1) \<Rightarrow>
               (case X ! i of
                  (x, y) \<Rightarrow>
                    (case np_uniform min_a max_a g1 of
                       (a, g2) \<Rightarrow>
                         (case np_uniform min_a max_a g2 of
                            (b, g3) \<Rightarrow>
                              (case assign_y X Y (Ellipse (Np x) (Np y) (Py a) (Py b)) 1 of
                                 Inl e \<Rightarrow> Inl e
                               | Inr Y' \<Rightarrow>
                                   Inr (Y', regions @ [Ellipse (Np x) (Np y) (Py a) (Py b)],
                                        g3)))))))"

primrec label_clusters ::
  "nat \<Rightarrow> row list \<Rightarrow> real \<Rightarrow> real \<Rightarrow> int list \<times> region list \<times> rng \<Rightarrow>
   pyerr + int list \<times> region list \<times> rng"
where
  "label_clusters 0 X min_a max_a st = Inr st"
| "label_clusters (Suc c) X min_a max_a st =
     (case label_cluster X min_a max_a st of
        Inl e \<Rightarrow> Inl e
      | Inr st' \<Rightarrow> label_clusters c X min_a max_a st')"

definition create_labels ::
  "row list \<Rightarrow> int \<Rightarrow> nat \<Rightarrow> real \<Rightarrow> real \<Rightarrow> rng \<Rightarrow> pyerr + int list \<times> region list \<times> rng"
where
  "create_labels X k num_clusters min_a max_a g =
     label_clusters num_clusters X min_a max_a (replicate (length X) k, [], g)"

subsection \<open>Labeling functions\<close>

text \<open>
  The state of the loop of \<^verbatim>\<open>create_lfs\<close>: the vote vectors \<open>L\<close> and the three
  histories. The points have two coordinates, so \<open>d = 2\<close>.
\<close>

record lfs_state =
  votes :: "int list list"
  accs_hist :: "real list list"
  props_hist :: "real list list"
  regions_hist :: "region list"
  gen :: rng

definition create_lf ::
  "row list \<Rightarrow> int list \<Rightarrow> bool \<Rightarrow> real \<Rightarrow> real \<Rightarrow> real \<Rightarrow> real \<Rightarrow> real \<Rightarrow> real \<Rightarrow>
   lfs_state \<Rightarrow> pyerr + lfs_state"
where
  "create_lf X Y unipolar min_r max_r min_acc max_acc min_prop max_prop st =
     (case np_choice (length X) (gen st) of
        Inl e \<Rightarrow> Inl e
      | Inr (i, g1) \<Rightarrow>
          (case X ! i of
             (x, y) \<Rightarrow>
               (case np_uniform min_r max_r g1 of
                  (r, g2) \<Rightarrow>
                    (case Circle_init (Np x) (Np y) (Py r) of
                       Inl e \<Rightarrow> Inl e
                     | Inr region \<Rightarrow>
                         (case np_uniform_vec min_acc max_acc 2 g2 of
                            (props, g3) \<Rightarrow>
                              (case np_uniform_vec min_acc max_acc 2 g3 of
                                 (accs, g4) \<Rightarrow>
                                   (case assign_l X Y region props accs g4 of
                                      Inl e \<Rightarrow> Inl e
                                    | Inr (l, g5) \<Rightarrow>
                                        if unipolar then
                                          (case np_randint 1 (2 + 1) g5 of
                                             Inl e \<Rightarrow> Inl e
                                           | Inr (polarity, g6) \<Rightarrow>
                                               Inr \<lparr>votes = votes st @
                                                      [map (\<lambda>v. if v \<noteq> polarity then 0 else v) l],
                                                    accs_hist = accs_hist st @ [accs],
                                                    props_hist = props_hist st @ [props],
                                                    regions_hist = regions_hist st @ [region],
                                                    gen = g6\<rparr>)
                                        else
                                          Inr \<lparr>votes = votes st @ [l],
                                               accs_hist = accs_hist st @ [accs],
                                               props_hist = props_hist st @ [props],
                                               regions_hist = regions_hist st @ [region],
                                               gen = g5\<rparr>)))))))"

primrec create_lfs_loop ::
  "nat \<Rightarrow> row list \<Rightarrow> int list \<Rightarrow> bool \<Rightarrow> real \<Rightarrow> real \<Rightarrow> real \<Rightarrow> real \<Rightarrow> real \<Rightarrow> real \<Rightarrow>
   lfs_state \<Rightarrow> pyerr + lfs_state"
where
  "create_lfs_loop 0 X Y unipolar min_r max_r min_acc max_acc min_prop max_prop st = Inr st"
| "create_lfs_loop (Suc j) X Y unipolar min_r max_r min_acc max_acc min_prop max_prop st =
     (case create_lf X Y unipolar min_r max_r min_acc max_acc min_prop max_prop st of
        Inl e \<Rightarrow> Inl e
      | Inr st' \<Rightarrow>
          create_lfs_loop j X Y unipolar min_r max_r min_acc max_acc min_prop max_prop st')"

text \<open>
  \<^verbatim>\<open>np.array(L).transpose()\<close> of \<open>m\<close> vectors of length \<open>len\<close>: row \<open>i\<close> collects entry
  \<open>i\<close> of every vector.
\<close>

definition transpose_votes :: "nat \<Rightarrow> int list list \<Rightarrow> int list list" where
  "transpose_votes len Ls = map (\<lambda>i. map (\<lambda>l. l ! i) Ls) [0..<len]"

text \<open>
  \<^verbatim>\<open>create_lfs\<close>. With \<open>m = 0\<close> the array built from the empty list has one axis of
  length 0: the assertion fails on \<^verbatim>\<open>L.shape[0] == n\<close> when \<open>n > 0\<close>, and the read of
  \<^verbatim>\<open>L.shape[1]\<close> raises \<^verbatim>\<open>IndexError\<close> when \<open>n = 0\<close>. Otherwise the array has
  \<open>len(Y)\<close> rows after the transposition and the assertion compares that with \<open>n\<close>.
\<close>

definition create_lfs ::
  "row list \<Rightarrow> int list \<Rightarrow> nat \<Rightarrow> bool \<Rightarrow> real \<Rightarrow> real \<Rightarrow> real \<Rightarrow> real \<Rightarrow> real \<Rightarrow> real \<Rightarrow>
   rng \<Rightarrow> pyerr + int list list \<times> region list \<times> rng"
where
  "create_lfs X Y m unipolar min_r max_r min_acc max_acc min_prop max_prop g =
     (case create_lfs_loop m X Y unipolar min_r max_r min_acc max_acc min_prop max_prop
             \<lparr>votes = [], accs_hist = [], props_hist = [], regions_hist = [], gen = g\<rparr> of
        Inl e \<Rightarrow> Inl e
      | Inr st \<Rightarrow>
          if m = 0 then (if length X = 0 then Inl IndexError else Inl AssertionError)
          else if length Y \<noteq> length X then Inl AssertionError
          else Inr (transpose_votes (length Y) (votes st), regions_hist st, gen st))"

subsection \<open>Conflict ranking\<close>

text \<open>
  \<^verbatim>\<open>conflict_func\<close>: \<open>counter[1]\<close> and \<open>counter[2]\<close> are the numbers of votes 1 and 2.
\<close>

definition conflict_func :: "int list \<Rightarrow> pyerr + real" where
  "conflict_func vs =
     (if 0 \<in> set vs then Inl AssertionError
      else
        (let num_votes = int (length vs);
             num_pairs = real_of_int (num_votes - \<bar>int (count_list vs 1) - int (count_list vs 2)\<bar>) / 2
         in Inr (num_pairs + 0.01 * real_of_int num_votes)))"

text \<open>
  The first loop of \<^verbatim>\<open>rank_by_conflict\<close> reads row \<open>i\<close> of \<open>L\<close> for every point of \<open>X\<close>;
  a missing row raises \<^verbatim>\<open>IndexError\<close>.
\<close>

fun votes_by_example :: "row list \<Rightarrow> int list list \<Rightarrow> nat \<Rightarrow> pyerr + (row \<times> int list) list" where
  "votes_by_example [] L i = Inr []"
| "votes_by_example (x # X) L i =
     (if i < length L then
        (case votes_by_example X L (Suc i) of
           Inl e \<Rightarrow> Inl e
         | Inr rest \<Rightarrow> Inr ((x, filter (\<lambda>l. l \<noteq> 0) (L ! i)) # rest))
      else Inl IndexError)"

fun score_all :: "(row \<times> int list) list \<Rightarrow> pyerr + (real \<times> row) list" where
  "score_all [] = Inr []"
| "score_all ((x, vs) # rest) =
     (case conflict_func vs of
        Inl e \<Rightarrow> Inl e
      | Inr sc \<Rightarrow>
          (case score_all rest of
             Inl e \<Rightarrow> Inl e
           | Inr scored \<Rightarrow> Inr ((sc, x) # scored)))"

text \<open>
  \<^verbatim>\<open>sorted(..., key=lambda x: x[0], reverse=True)\<close> is a stable sort into descending key
  order: elements with equal keys keep their order. That is the stable ascending sort on
  the negated key.
\<close>

definition sorted_reverse :: "(real \<times> row) list \<Rightarrow> (real \<times> row) list" where
  "sorted_reverse ps = sort_key (\<lambda>p. - fst p) ps"

definition rank_by_conflict :: "row list \<Rightarrow> int list list \<Rightarrow> pyerr + (real \<times> row) list" where
  "rank_by_conflict X L =
     (case votes_by_example X L 0 of
        Inl e \<Rightarrow> Inl e
      | Inr vbe \<Rightarrow>
          (case score_all vbe of
             Inl e \<Rightarrow> Inl e
           | Inr scored \<Rightarrow> Inr (sorted_reverse scored)))"

subsection \<open>Center selection\<close>

definition dist_points :: "row \<Rightarrow> row \<Rightarrow> real" where
  "dist_points p q = sqrt ((fst p - fst q) ^ 2 + (snd p - snd q) ^ 2)"

text \<open>
  The loop of \<^verbatim>\<open>select_conflicted_points\<close>. The index only moves on when the candidate is
  too close to a chosen center; reading past the ranking raises \<^verbatim>\<open>IndexError\<close>.
\<close>

function select_loop ::
  "(real \<times> row) list \<Rightarrow> nat \<Rightarrow> real \<Rightarrow> nat \<Rightarrow> row list \<Rightarrow> pyerr + row list"
where
  "select_loop ranked num_slices min_dist i centers =
     (if length centers < num_slices then
        (if i < length ranked then
           (if list_ex (\<lambda>c. dist_points (snd (ranked ! i)) c < min_dist) centers
            then select_loop ranked num_slices min_dist (Suc i) centers
            else select_loop ranked num_slices min_dist i (centers @ [snd (ranked ! i)]))
         else Inl IndexError)
      else Inr centers)"
  by pat_completeness auto
termination
  by (relation "measure (\<lambda>(ranked, num_slices, min_dist, i, centers).
         (num_slices - length centers) + (length ranked - i))") auto

definition select_conflicted_points ::
  "row list \<Rightarrow> int list list \<Rightarrow> nat \<Rightarrow> real \<Rightarrow> pyerr + row list"
where
  "select_conflicted_points X L num_slices min_dist =
     (case rank_by_conflict X L of
        Inl e \<Rightarrow> Inl e
      | Inr ranked \<Rightarrow> select_loop ranked num_slices min_dist 0 [])"

definition select_maxmin_points :: "row list \<Rightarrow> int list list \<Rightarrow> nat \<Rightarrow> pyerr + row list" where
  "select_maxmin_points X L num_slices =
     (if num_slices \<noteq> 2 then Inl AssertionError
      else
        (case rank_by_conflict X L of
           Inl e \<Rightarrow> Inl e
         | Inr ranked \<Rightarrow>
             (case py_index ranked 0 of
                Inl e \<Rightarrow> Inl e
              | Inr highest \<Rightarrow>
                  (case py_index ranked (- 1) of
                     Inl e \<Rightarrow> Inl e
                   | Inr lowest \<Rightarrow> Inr [snd highest, snd lowest]))))"

subsection \<open>Slices\<close>

text \<open>
  The centers of one pass. Rows of \<open>X\<close> become points of numpy scalars; the centers of
  the regions of labeling functions are taken as they are. In the \<^verbatim>\<open>random\<close> branch an
  empty draw from an empty range is an array of floats, and indexing \<open>X\<close> with it raises
  \<^verbatim>\<open>IndexError\<close>.
\<close>

definition choose_centers ::
  "row list \<Rightarrow> int list list \<Rightarrow> string \<Rightarrow> region list option \<Rightarrow> nat \<Rightarrow> real \<Rightarrow> rng \<Rightarrow>
   pyerr + point list \<times> rng"
where
  "choose_centers X L slice_source lf_regions num_slices max_a g =
     (if slice_source = ''random'' then
        (case np_choice_many (length X) num_slices g of
           Inl e \<Rightarrow> Inl e
         | Inr (idx, g1) \<Rightarrow>
             if length X = 0 then Inl IndexError
             else Inr (map (\<lambda>i. np_point (X ! i)) idx, g1))
      else if slice_source = ''lfs'' then
        (case lf_regions of
           None \<Rightarrow> Inl AssertionError
         | Some regs \<Rightarrow>
             (case np_choice_noreplace regs num_slices g of
                Inl e \<Rightarrow> Inl e
              | Inr (picked, g1) \<Rightarrow> Inr (map center picked, g1)))
      else if slice_source = ''conflicts'' then
        (case select_conflicted_points X L num_slices (max_a * 1.25) of
           Inl e \<Rightarrow> Inl e
         | Inr centers \<Rightarrow> Inr (map np_point centers, g))
      else if slice_source = ''maxmin'' then
        (case select_maxmin_points X L num_slices of
           Inl e \<Rightarrow> Inl e
         | Inr centers \<Rightarrow> Inr (map np_point centers, g))
      else Inl UnrecognizedSliceSource)"

text \<open>
  The inner loop of \<^verbatim>\<open>create_slices\<close>, \<^verbatim>\<open>for i in range(num_slices)\<close>: \<open>i\<close> is the
  index and \<open>c\<close> the number of passes left. The new region is appended to \<open>regions\<close> and
  the points inside it get the slice id \<open>i + 1\<close>.
\<close>

fun slice_loop ::
  "row list \<Rightarrow> point list \<Rightarrow> real \<Rightarrow> real \<Rightarrow> nat \<Rightarrow> nat \<Rightarrow> int list \<times> region list \<times> rng \<Rightarrow>
   pyerr + int list \<times> region list \<times> rng"
where
  "slice_loop X centers min_a max_a i 0 st = Inr st"
| "slice_loop X centers min_a max_a i (Suc c) (Z, regions, g) =
     (case py_index centers (int i) of
        Inl e \<Rightarrow> Inl e
      | Inr (x, y) \<Rightarrow>
          (case np_uniform min_a max_a g of
             (a, g1) \<Rightarrow>
               (case np_uniform min_a max_a g1 of
                  (b, g2) \<Rightarrow>
                    (case assign_y X Z (Ellipse x y (Py a) (Py b)) (int i + 1) of
                       Inl e \<Rightarrow> Inl e
                     | Inr Z' \<Rightarrow>
                         slice_loop X centers min_a max_a (Suc i) c
                           (Z', regions @ [Ellipse x y (Py a) (Py b)], g2)))))"

text \<open>
  The acceptance test: \<^verbatim>\<open>len(set(Z))\<close> is the number of distinct values of \<open>Z\<close> and
  \<^verbatim>\<open>Counter(Z).values()\<close> holds, for every distinct value, how often it occurs.
\<close>

definition satisfied :: "int list \<Rightarrow> nat \<Rightarrow> int \<Rightarrow> bool" where
  "satisfied Z num_slices min_slice_size =
     (length (remdups Z) = num_slices + 1 \<and>
      list_all (\<lambda>z. z > min_slice_size) (map (\<lambda>v. int (count_list Z v)) (remdups Z)))"

text \<open>
  The outer loop, \<^verbatim>\<open>while not satisfied\<close>. It has no bound, so the result is an option:
  \<open>None\<close> is a run that never leaves the loop. A failed pass resets \<open>Z\<close> and keeps
  \<open>regions\<close>.
\<close>

partial_function (option) create_slices_loop ::
  "row list \<Rightarrow> int list list \<Rightarrow> string \<Rightarrow> region list option \<Rightarrow> nat \<Rightarrow> int \<Rightarrow> real \<Rightarrow> real \<Rightarrow>
   int list \<times> region list \<times> rng \<Rightarrow> (pyerr + int list \<times> region list \<times> rng) option"
where
  "create_slices_loop X L slice_source lf_regions num_slices min_slice_size min_a max_a st =
     (case st of
        (Z, regions, g) \<Rightarrow>
          (case choose_centers X L slice_source lf_regions num_slices max_a g of
             Inl e \<Rightarrow> Some (Inl e)
           | Inr (centers, g1) \<Rightarrow>
               (case slice_loop X centers min_a max_a 0 num_slices (Z, regions, g1) of
                  Inl e \<Rightarrow> Some (Inl e)
                | Inr (Z', regions', g2) \<Rightarrow>
                    if satisfied Z' num_slices min_slice_size then Some (Inr (Z', regions', g2))
                    else create_slices_loop X L slice_source lf_regions num_slices
                           min_slice_size min_a max_a (replicate (length X) 0, regions', g2))))"

definition create_slices ::
  "row list \<Rightarrow> int list \<Rightarrow> int list list \<Rightarrow> string \<Rightarrow> region list option \<Rightarrow> nat \<Rightarrow> int \<Rightarrow>
   real \<Rightarrow> real \<Rightarrow> rng \<Rightarrow> (pyerr + int list \<times> region list \<times> rng) option"
where
  "create_slices X Y L slice_source lf_regions num_slices min_slice_size min_a max_a g =
     create_slices_loop X L slice_source lf_regions num_slices min_slice_size min_a max_a
       (replicate (length X) 0, [], g)"

subsection \<open>Plotting\<close>

text \<open>
  The drawing itself is outside the model. What remains of \<^verbatim>\<open>plot_all\<close> is
  \<^verbatim>\<open>color_map\<close>, called on \<open>Y\<close> and then on \<open>Z\<close>, which indexes a list of seven colors.
\<close>

definition colors :: "string list" where
  "colors = [''k'', ''r'', ''b'', ''g'', ''y'', ''c'', ''m'']"

fun color_map :: "int list \<Rightarrow> pyerr + string list" where
  "color_map [] = Inr []"
| "color_map (y # Y) =
     (case py_index colors y of
        Inl e \<Rightarrow> Inl e
      | Inr c \<Rightarrow> (case color_map Y of Inl e \<Rightarrow> Inl e | Inr cs \<Rightarrow> Inr (c # cs)))"

definition plot_all :: "int list list \<Rightarrow> row list \<Rightarrow> int list \<Rightarrow> int list \<Rightarrow> pyerr + unit" where
  "plot_all L X Y Z =
     (case color_map Y of
        Inl e \<Rightarrow> Inl e
      | Inr cy \<Rightarrow> (case color_map Z of Inl e \<Rightarrow> Inl e | Inr cz \<Rightarrow> Inr ()))"

subsection \<open>The script\<close>

text \<open>
  The keyword dictionaries of \<^verbatim>\<open>generate_dataset\<close> as records. The seeding functions of
  the three libraries are parameters: \<open>seeders\<close> gives, for a seed, the stream each
  generator produces from it. \<^verbatim>\<open>np.random.seed\<close> accepts a seed between \<open>0\<close> and
  \<open>2^32 - 1\<close> only.
\<close>

record L_kwargs =
  l_min_r :: real
  l_max_r :: real
  l_min_acc :: real
  l_max_acc :: real
  l_min_prop :: real
  l_max_prop :: real

record Y_kwargs =
  y_num_clusters :: nat
  y_min_a :: real
  y_max_a :: real

record Z_kwargs =
  z_num_slices :: nat
  z_min_slice_size :: int
  z_min_a :: real
  z_max_a :: real

record seeders =
  random_seed :: "int \<Rightarrow> nat stream"
  np_random_seed :: "int \<Rightarrow> nat stream"
  torch_manual_seed :: "int \<Rightarrow> nat stream"

record dataset =
  ds_L :: "int list list"
  ds_X :: "row list"
  ds_Y :: "int list"
  ds_Z :: "int list"
  ds_lfs_targeting_regions :: "nat list option"

text \<open>\<^verbatim>\<open>if seed:\<close> holds for an integer seed other than \<open>0\<close>; \<open>None\<close> is no seed.\<close>

definition set_random_seed :: "seeders \<Rightarrow> int option \<Rightarrow> rng \<Rightarrow> pyerr + rng" where
  "set_random_seed sd seed g =
     (case seed of
        None \<Rightarrow> Inr g
      | Some s \<Rightarrow>
          if s \<noteq> 0 then
            (if s < 0 \<or> 2 ^ 32 \<le> s then Inl ValueError
             else Inr \<lparr>py_random = random_seed sd s,
                       np_random = np_random_seed sd s,
                       torch_random = torch_manual_seed sd s\<rparr>)
          else Inr g)"

text \<open>
  Two centers are equal as tuples when their coordinates have equal values, whatever the
  kinds. \<^verbatim>\<open>list.index(True)\<close> is the first position holding \<open>True\<close>, \<^verbatim>\<open>ValueError\<close>
  if there is none.
\<close>

definition point_eq :: "point \<Rightarrow> point \<Rightarrow> bool" where
  "point_eq p q = (val (fst p) = val (fst q) \<and> val (snd p) = val (snd q))"

fun index_true :: "bool list \<Rightarrow> pyerr + nat" where
  "index_true [] = Inl ValueError"
| "index_true (b # bs) =
     (if b then Inr 0
      else (case index_true bs of Inl e \<Rightarrow> Inl e | Inr i \<Rightarrow> Inr (Suc i)))"

fun lfs_targeting :: "region list \<Rightarrow> region list \<Rightarrow> pyerr + nat list" where
  "lfs_targeting lf_regions [] = Inr []"
| "lfs_targeting lf_regions (region # slice_regions) =
     (case index_true (map (\<lambda>lf_region. point_eq (center lf_region) (center region))
                         lf_regions) of
        Inl e \<Rightarrow> Inl e
      | Inr lf_idx \<Rightarrow>
          (case lfs_targeting lf_regions slice_regions of
             Inl e \<Rightarrow> Inl e
           | Inr rest \<Rightarrow> Inr (lf_idx # rest)))"

text \<open>
  \<^verbatim>\<open>generate_dataset\<close>. In grid mode with \<open>n = 0\<close> the point array has a single axis and
  \<^verbatim>\<open>create_labels\<close> fails to unpack its shape (\<^verbatim>\<open>ValueError\<close>).
\<close>

definition generate_dataset ::
  "seeders \<Rightarrow> int \<Rightarrow> nat \<Rightarrow> nat \<Rightarrow> L_kwargs \<Rightarrow> bool \<Rightarrow> Y_kwargs \<Rightarrow> Z_kwargs \<Rightarrow> bool \<Rightarrow> string \<Rightarrow>
   bool \<Rightarrow> int option \<Rightarrow> rng \<Rightarrow> (pyerr + dataset) option"
where
  "generate_dataset sd k m n Lk random Yk Zk unipolar slice_source plotting seed g0 =
     (case set_random_seed sd seed g0 of
        Inl e \<Rightarrow> Some (Inl e)
      | Inr g \<Rightarrow>
     (case Rectangle_init (Py 0) (Py 10) (Py 0) (Py 10) of
        Inl e \<Rightarrow> Some (Inl e)
      | Inr canvas \<Rightarrow>
     (case create_points canvas n random g of
        Inl e \<Rightarrow> Some (Inl e)
      | Inr (X, g1) \<Rightarrow>
     if \<not> random \<and> n = 0 then Some (Inl ValueError) else
     (case create_labels X k (y_num_clusters Yk) (y_min_a Yk) (y_max_a Yk) g1 of
        Inl e \<Rightarrow> Some (Inl e)
      | Inr (Y, label_regions, g2) \<Rightarrow>
     (case create_lfs X Y m unipolar (l_min_r Lk) (l_max_r Lk) (l_min_acc Lk) (l_max_acc Lk)
             (l_min_prop Lk) (l_max_prop Lk) g2 of
        Inl e \<Rightarrow> Some (Inl e)
      | Inr (L, lf_regions, g3) \<Rightarrow>
     (case create_slices X Y L slice_source (Some lf_regions) (z_num_slices Zk)
             (z_min_slice_size Zk) (z_min_a Zk) (z_max_a Zk) g3 of
        None \<Rightarrow> None
      | Some (Inl e) \<Rightarrow> Some (Inl e)
      | Some (Inr (Z, slice_regions, g4)) \<Rightarrow>
     (case (if plotting then plot_all L X Y Z else Inr ()) of
        Inl e \<Rightarrow> Some (Inl e)
      | Inr u \<Rightarrow>
     if slice_source = ''lfs'' then
       (case lfs_targeting lf_regions slice_regions of
          Inl e \<Rightarrow> Some (Inl e)
        | Inr idx \<Rightarrow>
            Some (Inr \<lparr>ds_L = L, ds_X = X, ds_Y = Y, ds_Z = Z,
                       ds_lfs_targeting_regions = Some idx\<rparr>))
     else
       Some (Inr \<lparr>ds_L = L, ds_X = X, ds_Y = Y, ds_Z = Z,
                  ds_lfs_targeting_regions = None\<rparr>))))))))"

subsection \<open>Inputs of the example runs\<close>

text \<open>
  A small setting on which the script is run below: four grid points, one cluster, one
  labeling function and one slice, all of radius 1; seeding functions that turn a seed
  into constant streams; generators whose streams are constant.
\<close>

abbreviation ex_seeders :: seeders where
  "ex_seeders \<equiv> \<lparr>random_seed = \<lambda>s. sconst 0, np_random_seed = \<lambda>s. sconst (nat s),
     torch_manual_seed = \<lambda>s. sconst 0\<rparr>"

abbreviation ex_L_kwargs :: L_kwargs where
  "ex_L_kwargs \<equiv> \<lparr>l_min_r = 1, l_max_r = 1, l_min_acc = 1 / 2, l_max_acc = 9 / 10,
     l_min_prop = 1 / 2, l_max_prop = 9 / 10\<rparr>"

abbreviation ex_Y_kwargs :: Y_kwargs where
  "ex_Y_kwargs \<equiv> \<lparr>y_num_clusters = 1, y_min_a = 1, y_max_a = 1\<rparr>"

abbreviation ex_Z_kwargs :: Z_kwargs where
  "ex_Z_kwargs \<equiv> \<lparr>z_num_slices = 1, z_min_slice_size = 0, z_min_a = 1, z_max_a = 1\<rparr>"

abbreviation const_rng :: "nat \<Rightarrow> rng" where
  "const_rng w \<equiv> \<lparr>py_random = sconst 0, np_random = sconst w, torch_random = sconst 0\<rparr>"

subsection \<open>The conflict score of the specification\<close>

text \<open>
  The score as the specification words it, to be compared with \<^verbatim>\<open>conflict_func\<close>: over
  the non-abstaining votes of a point, \<open>(num_votes - |count(vote=1) - count(vote=2)|) / 2
  + 0.01 * num_votes\<close>.
\<close>

definition conflict_score :: "int list \<Rightarrow> real" where
  "conflict_score vs =
     (real (length vs) - \<bar>real (count_list vs 1) - real (count_list vs 2)\<bar>) / 2
       + 0.01 * real (length vs)"

definition nonzero_votes :: "int list \<Rightarrow> int list" where
  "nonzero_votes row = filter (\<lambda>l. l \<noteq> 0) row"

subsection \<open>The acceptance test of the specification\<close>

text \<open>
  The acceptance test as the specification words it, to be compared with \<open>satisfied\<close>:
  \<open>num_slices + 1\<close> distinct values, and at least \<open>min_slice_size\<close> members in every
  nonzero slice.
\<close>

definition accepts_spec :: "int list \<Rightarrow> nat \<Rightarrow> int \<Rightarrow> bool" where
  "accepts_spec Z num_slices min_slice_size =
     (length (remdups Z) = num_slices + 1 \<and>
      list_all (\<lambda>s. min_slice_size \<le> int (count_list Z s)) (filter (\<lambda>s. s \<noteq> 0) (remdups Z)))"

subsection \<open>Invariants of the loops\<close>

text \<open>
  Row \<open>p\<close> of \<open>X\<close> lies in a region. What holds of the vote vector of one labeling
  function: it is the vector that
  \<^verbatim>\<open>assign_l\<close> returned for the region of the function, and in unipolar mode every entry
  of it other than the polarity, which is 1 or 2, has been set to 0.
\<close>

definition inside :: "row list \<Rightarrow> region \<Rightarrow> nat \<Rightarrow> bool" where
  "inside X region p = (p < length X \<and> contains region (np_point (X ! p)) = Inr True)"



section \<open>Properties\<close>

subsection \<open>Regions\<close>

lemma Rectangle_contains_eq:
  "contains (Rectangle b t l r) (x, y) =
     Inr (val b < val x \<and> val x < val t \<and> val l < val y \<and> val y < val r)"
  by auto

lemma Ellipse_contains_nonzero:
  "val a \<noteq> 0 \<Longrightarrow> val b \<noteq> 0 \<Longrightarrow>
   contains (Ellipse h k a b) (x, y) =
     Inr ((val x - val h)\<^sup>2 / (val a)\<^sup>2 + (val y - val k)\<^sup>2 / (val b)\<^sup>2 < 1)"
  by (simp add: truediv_def)

text \<open>On a row of the point array \<^verbatim>\<open>contains\<close> always returns a boolean.\<close>

lemma contains_np_point: "\<exists>c. contains region (np_point p) = Inr c"
  by (cases region) (auto simp: np_point_def truediv_def)

lemma contains_np_cases:
  "contains region (np_point p) = Inr True \<or> contains region (np_point p) = Inr False"
  using contains_np_point [of region p] by auto

text \<open>
  C1. The claim: \<^verbatim>\<open>Rectangle(b, t, l, r).contains((x, y))\<close> holds iff \<open>l < x < r\<close> and
  \<open>b < y < t\<close>. The method compares \<open>x\<close> with \<open>b\<close> and \<open>t\<close> and \<open>y\<close> with \<open>l\<close> and
  \<open>r\<close> (lemma \<open>Rectangle_contains_eq\<close>), while \<^verbatim>\<open>center\<close> and \<^verbatim>\<open>create_points\<close>
  put \<open>x\<close> between \<open>l\<close> and \<open>r\<close>. The rectangle with bottom 0, top 10, left 0, right 1
  is constructed without error; its own center \<open>(1/2, 5)\<close> lies strictly inside the four
  bounds, and \<^verbatim>\<open>contains\<close> returns false on it.
\<close>

theorem Rectangle_contains_center_outside:
  "Rectangle_init (Py 0) (Py 10) (Py 0) (Py 1) = Inr (Rectangle (Py 0) (Py 10) (Py 0) (Py 1)) \<and>
   center (Rectangle (Py 0) (Py 10) (Py 0) (Py 1)) = (Py (1 / 2), Py 5) \<and>
   ((0::real) < 1 / 2 \<and> (1 / 2 ::real) < 1 \<and> (0::real) < 5 \<and> (5::real) < 10) \<and>
   contains (Rectangle (Py 0) (Py 10) (Py 0) (Py 1)) (Py (1 / 2), Py 5) = Inr False"
  by (simp add: Rectangle_init_def midpoint_def)




subsection \<open>Evaluation\<close>

text \<open>The definitions of the generator calls and of indexing, for runs on concrete inputs.\<close>

lemmas rng_eval = np_choice_def np_uniform_def random_random_def unit_interval_def np_randint_def
  truediv_def py_index_def np_point_def assign_y_def to_int64_def

subsection \<open>Labels\<close>

lemma to_int64_range: "- (2 ^ 63) \<le> v \<Longrightarrow> v < 2 ^ 63 \<Longrightarrow> to_int64 v = Inr v"
  by (simp add: to_int64_def)


lemma astype_int_total:
  "\<forall>v\<in>set vs. - (2 ^ 63) \<le> v \<and> v < 2 ^ 63 \<Longrightarrow> astype_int vs = Inr vs"
  by (induction vs) (simp_all add: to_int64_range)

lemma assign_y_loop_length:
  "assign_y_loop X Y region label = Inr Y' \<Longrightarrow> length Y' = length Y"
proof (induction X arbitrary: Y Y')
  case Nil
  then show ?case by simp
next
  case (Cons x X)
  show ?case
  proof (cases Y)
    case Nil
    with Cons.prems Cons.IH [of "[]" Y'] show ?thesis
      by (auto split: sum.splits if_splits)
  next
    case (Cons y Ys)
    with Cons.prems Cons.IH [of Ys] show ?thesis
      by (auto split: sum.splits if_splits)
  qed
qed

lemma assign_y_loop_nth:
  "assign_y_loop X Y region label = Inr Y' \<Longrightarrow> i < length Y \<Longrightarrow>
   Y' ! i =
     (if i < length X \<and> contains region (np_point (X ! i)) = Inr True then label else Y ! i)"
proof (induction X arbitrary: Y Y' i)
  case Nil
  then show ?case by simp
next
  case (Cons x X)
  show ?case
  proof (cases Y)
    case Nil
    with Cons.prems show ?thesis by simp
  next
    case (Cons y Ys)
    with Cons.prems Cons.IH show ?thesis
      by (cases i) (auto split: sum.splits if_splits)
  qed
qed














subsection \<open>Labeling functions\<close>



lemma np_uniform_vec_2:
  "np_uniform_vec lo hi 2 g =
     (case np_uniform lo hi g of
        (u, g1) \<Rightarrow> (case np_uniform lo hi g1 of (v, g2) \<Rightarrow> ([u, v], g2)))"
  by (simp add: numeral_2_eq_2 split: prod.splits)














lemma unit_interval_range: "0 \<le> unit_interval w \<and> unit_interval w < 1"
  by (simp add: unit_interval_def)

lemma np_uniform_range:
  assumes "lo \<le> hi"
  shows "lo \<le> fst (np_uniform lo hi g) \<and> fst (np_uniform lo hi g) \<le> hi"
proof -
  define u where "u = unit_interval (shd (np_random g))"
  have u: "0 \<le> u" "u \<le> 1"
    using unit_interval_range [of "shd (np_random g)"] by (simp_all add: u_def)
  have d: "0 \<le> hi - lo"
    using assms by simp
  have "0 \<le> (hi - lo) * u"
    using d u(1) by (rule mult_nonneg_nonneg)
  moreover have "(hi - lo) * u \<le> hi - lo"
    using d u(2) by (simp add: mult_left_le)
  ultimately show ?thesis
    by (simp add: np_uniform_def u_def)
qed

lemma create_lf_ignores_prop_range:
  "create_lf X Y unipolar min_r max_r min_acc max_acc min_prop max_prop st =
   create_lf X Y unipolar min_r max_r min_acc max_acc min_prop' max_prop' st"
  by (simp add: create_lf_def)

text \<open>
  C4. The claim: the coverage vector \<open>props\<close> of every labeling function is drawn from
  the coverage range \<open>[min_prop, max_prop]\<close>. The loop draws \<open>props\<close> from
  \<open>[min_acc, max_acc]\<close>, as it does \<open>accs\<close>, and never reads \<open>min_prop\<close> and
  \<open>max_prop\<close> (lemma \<open>create_lf_ignores_prop_range\<close>). With the accuracy range
  \<open>[0.5, 0.9]\<close> and the coverage range \<open>[0.1, 0.2]\<close>, one pass of the loop records
  the coverage vector \<open>[0.5, 0.5]\<close>, outside the coverage range.
\<close>

theorem create_lfs_props_from_acc_range:
  "create_lfs_loop 1 [(0, 0)] [1] False 1 5 (1 / 2) (9 / 10) (1 / 10) (2 / 10)
     \<lparr>votes = [], accs_hist = [], props_hist = [], regions_hist = [],
        gen = \<lparr>py_random = sconst 0, np_random = sconst 0, torch_random = sconst 0\<rparr>\<rparr>
   = Inr \<lparr>votes = [[1]], accs_hist = [[1 / 2, 1 / 2]], props_hist = [[1 / 2, 1 / 2]],
          regions_hist = [Ellipse (Np 0) (Np 0) (Py 1) (Py 1)],
          gen = \<lparr>py_random = sconst 0, np_random = sconst 0, torch_random = sconst 0\<rparr>\<rparr> \<and>
   \<not> ((1 / 10 :: real) \<le> 1 / 2 \<and> (1 / 2 :: real) \<le> 2 / 10)"
  by (simp add: create_lf_def Circle_init_def cons_vote_def np_uniform_vec_2 rng_eval)


subsection \<open>Conflict ranking\<close>

lemma conflict_func_score:
  "0 \<notin> set vs \<Longrightarrow> conflict_func vs = Inr (conflict_score vs)"
  by (simp add: conflict_func_def conflict_score_def Let_def)

lemma votes_by_example_eq:
  "i + length X \<le> length L \<Longrightarrow>
   votes_by_example X L i = Inr (map (\<lambda>j. (X ! j, nonzero_votes (L ! (i + j)))) [0..<length X])"
proof (induction X arbitrary: i)
  case Nil
  then show ?case by simp
next
  case (Cons x X)
  then have ih: "votes_by_example X L (Suc i) =
      Inr (map (\<lambda>j. (X ! j, nonzero_votes (L ! (Suc i + j)))) [0..<length X])"
    by simp
  have "[0..<length (x # X)] = 0 # map Suc [0..<length X]"
    by (simp add: upt_conv_Cons map_Suc_upt del: upt_Suc)
  then show ?case
    using Cons.prems ih by (simp add: nonzero_votes_def comp_def del: upt_Suc)
qed

lemma score_all_eq:
  "list_all (\<lambda>p. 0 \<notin> set (snd p)) vbe \<Longrightarrow>
   score_all vbe = Inr (map (\<lambda>p. (conflict_score (snd p), fst p)) vbe)"
  by (induction vbe rule: score_all.induct) (simp_all add: conflict_func_score)

lemma sorted_reverse_props:
  "mset (sorted_reverse ps) = mset ps \<and> sorted_wrt (\<lambda>p q. fst q \<le> fst p) (sorted_reverse ps)"
proof -
  have "sorted (map (\<lambda>p. - fst p) (sorted_reverse ps))"
    by (simp add: sorted_reverse_def)
  then have "sorted_wrt (\<lambda>p q. fst q \<le> fst p) (sorted_reverse ps)"
    by (simp add: sorted_map)
  then show ?thesis
    by (simp add: sorted_reverse_def)
qed

lemma rank_by_conflict_eq:
  assumes "length X \<le> length L"
  shows "rank_by_conflict X L =
     Inr (sorted_reverse (map (\<lambda>i. (conflict_score (nonzero_votes (L ! i)), X ! i)) [0..<length X]))"
proof -
  have v: "votes_by_example X L 0 =
      Inr (map (\<lambda>j. (X ! j, nonzero_votes (L ! j))) [0..<length X])"
    using votes_by_example_eq [of 0 X L] assms by simp
  have "list_all (\<lambda>p. 0 \<notin> set (snd p)) (map (\<lambda>j. (X ! j, nonzero_votes (L ! j))) [0..<length X])"
    by (simp add: list_all_iff nonzero_votes_def)
  from score_all_eq [OF this] v show ?thesis
    by (simp add: rank_by_conflict_def comp_def)
qed

text \<open>
  C8. When the vote matrix has a row for every point, \<^verbatim>\<open>rank_by_conflict\<close> returns the
  pairs (score, point), one for every point, where the score is that of the specification
  over the nonzero votes of the point, and the pairs are in descending score order. A
  point \<open>A\<close> with votes \<open>[1, 2, 1, 2]\<close> has score 2.04 and is ranked above a point \<open>B\<close>
  with votes \<open>[1, 1, 1, 1]\<close>, of score 0.04.
\<close>

theorem rank_by_conflict_sorted:
  assumes "length X \<le> length L"
  shows "(\<exists>ranked. rank_by_conflict X L = Inr ranked \<and>
            mset ranked =
              mset (map (\<lambda>i. (conflict_score (nonzero_votes (L ! i)), X ! i)) [0..<length X]) \<and>
            sorted_wrt (\<lambda>p q. fst q \<le> fst p) ranked) \<and>
         rank_by_conflict [B, A] [[1, 1, 1, 1], [1, 2, 1, 2]] = Inr [(2.04, A), (0.04, B)]"
proof -
  have ex: "rank_by_conflict [B, A] [[1, 1, 1, 1], [1, 2, 1, 2]] = Inr [(2.04, A), (0.04, B)]"
    by (simp add: rank_by_conflict_def conflict_func_def sorted_reverse_def)
  show ?thesis
    using rank_by_conflict_eq [OF assms] sorted_reverse_props ex by simp
qed

theorem rank_by_conflict_sorted_witness:
  "rank_by_conflict [(0, 0), (1, 1), (2, 2)] [[1, 1, 1, 1], [1, 2, 1, 2], [0, 0, 2, 1]] =
     Inr [(2.04, (1, 1)), (1.02, (2, 2)), (0.04, (0, 0))] \<and>
   conflict_score (nonzero_votes [0, 0, 2, 1]) = 1.02"
proof -
  have len: "length [(0, 0), (1, 1), (2, 2) :: row] \<le> length [[1, 1, 1, 1], [1, 2, 1, 2], [0, 0, 2, 1 :: int]]"
    by simp
  from rank_by_conflict_sorted [OF len] show ?thesis
    by (simp add: rank_by_conflict_def conflict_func_def sorted_reverse_def conflict_score_def
        nonzero_votes_def)
qed


subsection \<open>Slices\<close>

text \<open>A label that the loop of \<^verbatim>\<open>assign_y\<close> has written fits in 64 bits.\<close>

lemma assign_y_loop_store:
  "assign_y_loop X Y region label = Inr Y' \<Longrightarrow> i < length X \<Longrightarrow> i < length Y \<Longrightarrow>
   contains region (np_point (X ! i)) = Inr True \<Longrightarrow> - (2 ^ 63) \<le> label \<and> label < 2 ^ 63"
proof (induction X arbitrary: Y Y' i)
  case Nil
  then show ?case by simp
next
  case (Cons x X)
  from Cons.prems(3) obtain y Ys where Y: "Y = y # Ys"
    by (cases Y) auto
  show ?case
  proof (cases i)
    case 0
    with Cons.prems Y show ?thesis
      by (auto split: sum.splits if_splits)
  next
    case (Suc n)
    from Cons.prems(1) Y obtain R where rest: "assign_y_loop X Ys region label = Inr R"
      by (auto split: sum.splits if_splits)
    from Cons.IH [OF rest, of n] Cons.prems(2,3,4) Y Suc show ?thesis
      by simp
  qed
qed

lemma assign_y_exact:
  assumes run: "assign_y X Y region label = Inr Y'"
    and Y: "\<forall>v\<in>set Y. - (2 ^ 63) \<le> v \<and> v < 2 ^ 63"
  shows "length Y' = length Y \<and>
         (\<forall>i<length Y. Y' ! i =
            (if i < length X \<and> contains region (np_point (X ! i)) = Inr True
             then label else Y ! i)) \<and>
         (\<forall>v\<in>set Y'. - (2 ^ 63) \<le> v \<and> v < 2 ^ 63)"
proof -
  from run obtain Y1 where
    loop: "assign_y_loop X Y region label = Inr Y1" and conv: "astype_int Y1 = Inr Y'"
    by (auto simp: assign_y_def split: sum.splits)
  have len1: "length Y1 = length Y"
    using loop by (rule assign_y_loop_length)
  have nth: "\<forall>i<length Y. Y1 ! i =
              (if i < length X \<and> contains region (np_point (X ! i)) = Inr True
               then label else Y ! i)"
    using assign_y_loop_nth [OF loop] by blast
  have range1: "\<forall>v\<in>set Y1. - (2 ^ 63) \<le> v \<and> v < 2 ^ 63"
  proof
    fix v assume "v \<in> set Y1"
    then obtain i where i: "i < length Y1" and v: "Y1 ! i = v"
      by (auto simp: in_set_conv_nth)
    from i len1 have iY: "i < length Y" by simp
    then have "Y ! i \<in> set Y" by simp
    with Y have old: "- (2 ^ 63) \<le> Y ! i \<and> Y ! i < 2 ^ 63" by blast
    show "- (2 ^ 63) \<le> v \<and> v < 2 ^ 63"
    proof (cases "i < length X \<and> contains region (np_point (X ! i)) = Inr True")
      case True
      with assign_y_loop_store [OF loop _ iY] have "- (2 ^ 63) \<le> label \<and> label < 2 ^ 63"
        by simp
      with nth iY v True show ?thesis by simp
    next
      case False
      with nth iY v old show ?thesis by auto
    qed
  qed
  then have "astype_int Y1 = Inr Y1"
    by (rule astype_int_total)
  with conv have "Y' = Y1" by simp
  with len1 nth range1 show ?thesis by simp
qed

lemma slice_loop_Suc:
  assumes "slice_loop X centers min_a max_a i (Suc c) (Z, R, g) = Inr (Z', R', g')"
  shows "\<exists>region Z1 g1. assign_y X Z region (int i + 1) = Inr Z1 \<and>
           slice_loop X centers min_a max_a (Suc i) c (Z1, R @ [region], g1) = Inr (Z', R', g')"
  using assms by (auto split: sum.splits prod.splits)

text \<open>
  One pass of the inner loop of \<^verbatim>\<open>create_slices\<close>: it appends one region for every
  slice, and a point ends with the id of the last new region that contains it, or keeps
  its id when none does.
\<close>

lemma slice_loop_inv:
  "slice_loop X centers min_a max_a i c (Z, R, g) = Inr (Z', R', g') \<Longrightarrow>
   \<forall>v\<in>set Z. - (2 ^ 63) \<le> v \<and> v < 2 ^ 63 \<Longrightarrow>
   length Z' = length Z \<and>
   (\<exists>new. R' = R @ new \<and> length new = c \<and>
      (\<forall>p<length Z.
         (Z' ! p = Z ! p \<and> (\<forall>j<c. \<not> inside X (new ! j) p)) \<or>
         (\<exists>j<c. Z' ! p = int (i + j) + 1 \<and> inside X (new ! j) p \<and>
                 (\<forall>j'. j < j' \<and> j' < c \<longrightarrow> \<not> inside X (new ! j') p))))"
proof (induction c arbitrary: i Z R g)
  case 0
  then show ?case by simp
next
  case (Suc c)
  from slice_loop_Suc [OF Suc.prems(1)] obtain region Z1 g1 where
    ay: "assign_y X Z region (int i + 1) = Inr Z1" and
    rest: "slice_loop X centers min_a max_a (Suc i) c (Z1, R @ [region], g1) = Inr (Z', R', g')"
    by blast
  from assign_y_exact [OF ay Suc.prems(2)] have
    len1: "length Z1 = length Z" and
    first: "\<forall>p<length Z. Z1 ! p = (if inside X region p then int i + 1 else Z ! p)" and
    range1: "\<forall>v\<in>set Z1. - (2 ^ 63) \<le> v \<and> v < 2 ^ 63"
    by (simp_all add: inside_def)
  from Suc.IH [OF rest range1] obtain new where
    len: "length Z' = length Z1" and R': "R' = (R @ [region]) @ new" and lennew: "length new = c" and
    pts: "\<forall>p<length Z1.
         (Z' ! p = Z1 ! p \<and> (\<forall>j<c. \<not> inside X (new ! j) p)) \<or>
         (\<exists>j<c. Z' ! p = int (Suc i + j) + 1 \<and> inside X (new ! j) p \<and>
                 (\<forall>j'. j < j' \<and> j' < c \<longrightarrow> \<not> inside X (new ! j') p))"
    by blast
  have "\<forall>p<length Z.
         (Z' ! p = Z ! p \<and> (\<forall>j<Suc c. \<not> inside X ((region # new) ! j) p)) \<or>
         (\<exists>j<Suc c. Z' ! p = int (i + j) + 1 \<and> inside X ((region # new) ! j) p \<and>
                 (\<forall>j'. j < j' \<and> j' < Suc c \<longrightarrow> \<not> inside X ((region # new) ! j') p))"
  proof (intro allI impI)
    fix p assume p: "p < length Z"
    from pts p len1 consider
      (old) "Z' ! p = Z1 ! p" "\<forall>j<c. \<not> inside X (new ! j) p" |
      (later) j where "j < c" "Z' ! p = int (Suc i + j) + 1" "inside X (new ! j) p"
        "\<forall>j'. j < j' \<and> j' < c \<longrightarrow> \<not> inside X (new ! j') p"
      by auto
    then show "(Z' ! p = Z ! p \<and> (\<forall>j<Suc c. \<not> inside X ((region # new) ! j) p)) \<or>
         (\<exists>j<Suc c. Z' ! p = int (i + j) + 1 \<and> inside X ((region # new) ! j) p \<and>
                 (\<forall>j'. j < j' \<and> j' < Suc c \<longrightarrow> \<not> inside X ((region # new) ! j') p))"
    proof cases
      case old
      have tail: "\<forall>j'. 0 < j' \<and> j' < Suc c \<longrightarrow> \<not> inside X ((region # new) ! j') p"
      proof (intro allI impI)
        fix j' assume "0 < j' \<and> j' < Suc c"
        then obtain n where "j' = Suc n" "n < c"
          by (cases j') auto
        with old(2) show "\<not> inside X ((region # new) ! j') p"
          by simp
      qed
      show ?thesis
      proof (cases "inside X region p")
        case True
        with first p old(1) have "Z' ! p = int (i + 0) + 1"
          by simp
        with True tail have "0 < Suc c \<and> Z' ! p = int (i + 0) + 1 \<and>
            inside X ((region # new) ! 0) p \<and>
            (\<forall>j'. 0 < j' \<and> j' < Suc c \<longrightarrow> \<not> inside X ((region # new) ! j') p)"
          by simp
        then show ?thesis by blast
      next
        case False
        with first p old(1) have same: "Z' ! p = Z ! p"
          by simp
        have "\<forall>j<Suc c. \<not> inside X ((region # new) ! j) p"
        proof (intro allI impI)
          fix j assume "j < Suc c"
          then show "\<not> inside X ((region # new) ! j) p"
            using False tail by (cases j) auto
        qed
        with same show ?thesis by blast
      qed
    next
      case later
      have "\<forall>j'. Suc j < j' \<and> j' < Suc c \<longrightarrow> \<not> inside X ((region # new) ! j') p"
      proof (intro allI impI)
        fix j' assume a: "Suc j < j' \<and> j' < Suc c"
        then obtain n where n: "j' = Suc n" "j < n" "n < c"
          by (cases j') auto
        with later(4) show "\<not> inside X ((region # new) ! j') p"
          by simp
      qed
      with later have "Suc j < Suc c \<and> Z' ! p = int (i + Suc j) + 1 \<and>
          inside X ((region # new) ! Suc j) p \<and>
          (\<forall>j'. Suc j < j' \<and> j' < Suc c \<longrightarrow> \<not> inside X ((region # new) ! j') p)"
        by simp
      then show ?thesis by blast
    qed
  qed
  moreover have "R' = R @ (region # new)" "length (region # new) = Suc c"
    using R' lennew by simp_all
  ultimately have "\<exists>new. R' = R @ new \<and> length new = Suc c \<and>
      (\<forall>p<length Z.
         (Z' ! p = Z ! p \<and> (\<forall>j<Suc c. \<not> inside X (new ! j) p)) \<or>
         (\<exists>j<Suc c. Z' ! p = int (i + j) + 1 \<and> inside X (new ! j) p \<and>
                 (\<forall>j'. j < j' \<and> j' < Suc c \<longrightarrow> \<not> inside X (new ! j') p)))"
    by (intro exI [of _ "region # new"] conjI)
  then show ?case
    using len len1 by simp
qed

lemma create_slices_loop_result:
  assumes "create_slices_loop X L slice_source lf_regions num_slices min_slice_size min_a max_a st
             = Some (Inr (Z, R, g'))"
  shows "satisfied Z num_slices min_slice_size \<and>
         (\<exists>centers Z0 R0 g0. (Z0 = fst st \<or> Z0 = replicate (length X) 0) \<and>
            slice_loop X centers min_a max_a 0 num_slices (Z0, R0, g0) = Inr (Z, R, g'))"
proof -
  let ?P = "\<lambda>X (L :: int list list) (slice_source :: string) (lf_regions :: region list option)
              num_slices min_slice_size min_a max_a (st :: int list \<times> region list \<times> rng)
              (y :: pyerr + int list \<times> region list \<times> rng).
      \<forall>Z R g'. y = Inr (Z, R, g') \<longrightarrow>
        satisfied Z num_slices min_slice_size \<and>
        (\<exists>centers Z0 R0 g0. (Z0 = fst st \<or> Z0 = replicate (length X) 0) \<and>
            slice_loop X centers min_a max_a 0 num_slices (Z0, R0, g0) = Inr (Z, R, g'))"
  have "?P X L slice_source lf_regions num_slices min_slice_size min_a max_a st (Inr (Z, R, g'))"
  proof (rule create_slices_loop.raw_induct [where P = ?P, OF _ assms])
    fix f X L slice_source lf_regions num_slices min_slice_size min_a max_a st y
    assume IH: "\<And>X L slice_source lf_regions num_slices min_slice_size min_a max_a st y.
        f X L slice_source lf_regions num_slices min_slice_size min_a max_a st = Some y \<Longrightarrow>
        ?P X L slice_source lf_regions num_slices min_slice_size min_a max_a st y"
      and body: "(case st of
        (Z, regions, g) \<Rightarrow>
          (case choose_centers X L slice_source lf_regions num_slices max_a g of
             Inl e \<Rightarrow> Some (Inl e)
           | Inr (centers, g1) \<Rightarrow>
               (case slice_loop X centers min_a max_a 0 num_slices (Z, regions, g1) of
                  Inl e \<Rightarrow> Some (Inl e)
                | Inr (Z', regions', g2) \<Rightarrow>
                    if satisfied Z' num_slices min_slice_size then Some (Inr (Z', regions', g2))
                    else f X L slice_source lf_regions num_slices
                           min_slice_size min_a max_a (replicate (length X) 0, regions', g2)))) = Some y"
    show "?P X L slice_source lf_regions num_slices min_slice_size min_a max_a st y"
    proof (intro allI impI)
      fix Z R g' assume y: "y = Inr (Z, R, g')"
      obtain Zs Rs gs where st: "st = (Zs, Rs, gs)"
        by (cases st) auto
      from body st y obtain centers g1 Z' R' g2 where
        cc: "choose_centers X L slice_source lf_regions num_slices max_a gs = Inr (centers, g1)" and
        sl: "slice_loop X centers min_a max_a 0 num_slices (Zs, Rs, g1) = Inr (Z', R', g2)" and
        alt: "satisfied Z' num_slices min_slice_size \<and> (Z', R', g2) = (Z, R, g') \<or>
              \<not> satisfied Z' num_slices min_slice_size \<and>
              f X L slice_source lf_regions num_slices min_slice_size min_a max_a
                (replicate (length X) 0, R', g2) = Some (Inr (Z, R, g'))"
        by (auto split: sum.splits prod.splits if_splits)
      from alt show "satisfied Z num_slices min_slice_size \<and>
        (\<exists>centers Z0 R0 g0. (Z0 = fst st \<or> Z0 = replicate (length X) 0) \<and>
            slice_loop X centers min_a max_a 0 num_slices (Z0, R0, g0) = Inr (Z, R, g'))"
      proof
        assume "satisfied Z' num_slices min_slice_size \<and> (Z', R', g2) = (Z, R, g')"
        with sl st show ?thesis
          by auto
      next
        assume "\<not> satisfied Z' num_slices min_slice_size \<and>
              f X L slice_source lf_regions num_slices min_slice_size min_a max_a
                (replicate (length X) 0, R', g2) = Some (Inr (Z, R, g'))"
        then have "f X L slice_source lf_regions num_slices min_slice_size min_a max_a
                (replicate (length X) 0, R', g2) = Some (Inr (Z, R, g'))"
          by simp
        from IH [OF this] show ?thesis
          by auto
      qed
    qed
  qed
  then show ?thesis
    by simp
qed


lemma satisfied_iff:
  "satisfied Z num_slices min_slice_size \<longleftrightarrow>
     card (set Z) = num_slices + 1 \<and> (\<forall>v\<in>set Z. min_slice_size < int (count_list Z v))"
  by (auto simp: satisfied_def card_set list_all_iff)

text \<open>
  What \<^verbatim>\<open>create_slices\<close> returns is the outcome of one pass that started from zeros:
  the regions of that pass are the last \<open>num_slices\<close> of the list, a point with id 0 lies
  in none of them, and a point with id \<open>j + 1\<close> lies in the region number \<open>j\<close> of the
  pass and in no later one.
\<close>

lemma create_slices_result:
  assumes "create_slices X Y L slice_source lf_regions num_slices min_slice_size min_a max_a g
             = Some (Inr (Z, regions, g'))"
  shows "satisfied Z num_slices min_slice_size \<and> length Z = length X \<and>
         (\<exists>past new centers g0. regions = past @ new \<and> length new = num_slices \<and>
            slice_loop X centers min_a max_a 0 num_slices (replicate (length X) 0, past, g0)
              = Inr (Z, regions, g') \<and>
            (\<forall>p<length X.
               (Z ! p = 0 \<and>
                (\<forall>j<num_slices. contains (new ! j) (np_point (X ! p)) = Inr False)) \<or>
               (\<exists>j<num_slices. Z ! p = int j + 1 \<and>
                  contains (new ! j) (np_point (X ! p)) = Inr True \<and>
                  (\<forall>j'. j < j' \<and> j' < num_slices \<longrightarrow>
                     contains (new ! j') (np_point (X ! p)) = Inr False))))"
proof -
  from assms have "create_slices_loop X L slice_source lf_regions num_slices min_slice_size
      min_a max_a (replicate (length X) 0, [], g) = Some (Inr (Z, regions, g'))"
    by (simp add: create_slices_def)
  from create_slices_loop_result [OF this] obtain centers R0 g0 where
    sat: "satisfied Z num_slices min_slice_size" and
    sl: "slice_loop X centers min_a max_a 0 num_slices (replicate (length X) 0, R0, g0)
           = Inr (Z, regions, g')"
    by auto
  have zeros: "\<forall>v\<in>set (replicate (length X) (0::int)). - (2 ^ 63) \<le> v \<and> v < 2 ^ 63"
    by simp
  from slice_loop_inv [OF sl zeros] obtain new where
    len: "length Z = length X" and R: "regions = R0 @ new" and lennew: "length new = num_slices" and
    pts: "\<forall>p<length X.
         (Z ! p = replicate (length X) 0 ! p \<and> (\<forall>j<num_slices. \<not> inside X (new ! j) p)) \<or>
         (\<exists>j<num_slices. Z ! p = int (0 + j) + 1 \<and> inside X (new ! j) p \<and>
                 (\<forall>j'. j < j' \<and> j' < num_slices \<longrightarrow> \<not> inside X (new ! j') p))"
    by auto
  have out: "\<not> inside X r p \<Longrightarrow> p < length X \<Longrightarrow> contains r (np_point (X ! p)) = Inr False"
    for r p
    using contains_np_cases [of r "X ! p"] by (auto simp: inside_def)
  have "\<forall>p<length X.
               (Z ! p = 0 \<and>
                (\<forall>j<num_slices. contains (new ! j) (np_point (X ! p)) = Inr False)) \<or>
               (\<exists>j<num_slices. Z ! p = int j + 1 \<and>
                  contains (new ! j) (np_point (X ! p)) = Inr True \<and>
                  (\<forall>j'. j < j' \<and> j' < num_slices \<longrightarrow>
                     contains (new ! j') (np_point (X ! p)) = Inr False))"
  proof (intro allI impI)
    fix p assume p: "p < length X"
    from pts p consider
      (none) "Z ! p = 0" "\<forall>j<num_slices. \<not> inside X (new ! j) p" |
      (some) j where "j < num_slices" "Z ! p = int j + 1" "inside X (new ! j) p"
        "\<forall>j'. j < j' \<and> j' < num_slices \<longrightarrow> \<not> inside X (new ! j') p"
      by auto
    then show "(Z ! p = 0 \<and>
                (\<forall>j<num_slices. contains (new ! j) (np_point (X ! p)) = Inr False)) \<or>
               (\<exists>j<num_slices. Z ! p = int j + 1 \<and>
                  contains (new ! j) (np_point (X ! p)) = Inr True \<and>
                  (\<forall>j'. j < j' \<and> j' < num_slices \<longrightarrow>
                     contains (new ! j') (np_point (X ! p)) = Inr False))"
    proof cases
      case none
      then show ?thesis
        using out p by simp
    next
      case some
      then have "j < num_slices \<and> Z ! p = int j + 1 \<and>
                  contains (new ! j) (np_point (X ! p)) = Inr True \<and>
                  (\<forall>j'. j < j' \<and> j' < num_slices \<longrightarrow>
                     contains (new ! j') (np_point (X ! p)) = Inr False)"
        using out p by (simp add: inside_def)
      then show ?thesis by blast
    qed
  qed
  with R lennew sl have "\<exists>past new centers g0. regions = past @ new \<and> length new = num_slices \<and>
            slice_loop X centers min_a max_a 0 num_slices (replicate (length X) 0, past, g0)
              = Inr (Z, regions, g') \<and>
            (\<forall>p<length X.
               (Z ! p = 0 \<and>
                (\<forall>j<num_slices. contains (new ! j) (np_point (X ! p)) = Inr False)) \<or>
               (\<exists>j<num_slices. Z ! p = int j + 1 \<and>
                  contains (new ! j) (np_point (X ! p)) = Inr True \<and>
                  (\<forall>j'. j < j' \<and> j' < num_slices \<longrightarrow>
                     contains (new ! j') (np_point (X ! p)) = Inr False)))"
    by blast
  with sat len show ?thesis
    by simp
qed

text \<open>
  The step of the retry loop: a candidate that passes the test is returned; one that
  fails is replaced by zeros, the regions are kept, and the loop runs again.
\<close>

lemma create_slices_loop_step:
  assumes "choose_centers X L slice_source lf_regions num_slices max_a gs = Inr (centers, g1)"
    and "slice_loop X centers min_a max_a 0 num_slices (Zs, Rs, g1) = Inr (Z', R', g2)"
  shows "create_slices_loop X L slice_source lf_regions num_slices min_slice_size min_a max_a
           (Zs, Rs, gs) =
         (if satisfied Z' num_slices min_slice_size then Some (Inr (Z', R', g2))
          else create_slices_loop X L slice_source lf_regions num_slices min_slice_size
                 min_a max_a (replicate (length X) 0, R', g2))"
  by (subst create_slices_loop.simps) (simp add: assms)

lemma np_choice_many_numeral:
  "np_choice_many n (numeral k) g = np_choice_many n (Suc (pred_numeral k)) g"
  by (simp add: numeral_eq_Suc)

lemma slice_loop_numeral:
  "slice_loop X centers min_a max_a i (numeral k) st =
   slice_loop X centers min_a max_a i (Suc (pred_numeral k)) st"
  by (simp add: numeral_eq_Suc)

text \<open>
  A run on three points and two slices. Both centers of the first pass fall on point 0,
  so slice 1 is overwritten and the candidate is rejected; the centers of the second pass
  fall on points 1 and 2.
\<close>

lemma retry_first_pass:
  "choose_centers [(0, 0), (0, 10), (10, 0)] [[0], [0], [0]] ''random'' None 2 1
     \<lparr>py_random = sconst 0, np_random = 0 ## 0 ## 0 ## 0 ## 0 ## 0 ## 1 ## 2 ## sconst 0,
        torch_random = sconst 0\<rparr>
   = Inr ([(Np 0, Np 0), (Np 0, Np 0)],
       \<lparr>py_random = sconst 0, np_random = 0 ## 0 ## 0 ## 0 ## 1 ## 2 ## sconst 0,
          torch_random = sconst 0\<rparr>) \<and>
   slice_loop [(0, 0), (0, 10), (10, 0)] [(Np 0, Np 0), (Np 0, Np 0)] 1 1 0 2
     ([0, 0, 0], [],
      \<lparr>py_random = sconst 0, np_random = 0 ## 0 ## 0 ## 0 ## 1 ## 2 ## sconst 0,
         torch_random = sconst 0\<rparr>)
   = Inr ([2, 0, 0], [Ellipse (Np 0) (Np 0) (Py 1) (Py 1), Ellipse (Np 0) (Np 0) (Py 1) (Py 1)],
       \<lparr>py_random = sconst 0, np_random = 1 ## 2 ## sconst 0, torch_random = sconst 0\<rparr>) \<and>
   \<not> satisfied [2, 0, 0] 2 0"
  by (simp add: choose_centers_def np_choice_many_numeral slice_loop_numeral satisfied_def
      rng_eval)

lemma retry_run:
  "create_slices [(0, 0), (0, 10), (10, 0)] [2, 1, 2] [[0], [0], [0]] ''random'' None 2 0 1 1
     \<lparr>py_random = sconst 0, np_random = 0 ## 0 ## 0 ## 0 ## 0 ## 0 ## 1 ## 2 ## sconst 0,
        torch_random = sconst 0\<rparr>
   = Some (Inr ([0, 1, 2],
        [Ellipse (Np 0) (Np 0) (Py 1) (Py 1), Ellipse (Np 0) (Np 0) (Py 1) (Py 1),
         Ellipse (Np 0) (Np 10) (Py 1) (Py 1), Ellipse (Np 10) (Np 0) (Py 1) (Py 1)],
        \<lparr>py_random = sconst 0, np_random = sconst 0, torch_random = sconst 0\<rparr>))"
  unfolding create_slices_def
  apply (subst create_slices_loop.simps)
  apply (simp add: choose_centers_def np_choice_many_numeral slice_loop_numeral satisfied_def rng_eval)
  apply (subst create_slices_loop.simps)
  apply (simp add: choose_centers_def np_choice_many_numeral slice_loop_numeral satisfied_def rng_eval)
  done

text \<open>
  C2. The claim: a candidate \<open>Z\<close> is accepted exactly when it has \<open>num_slices + 1\<close>
  distinct values and every nonzero slice has at least \<open>min_slice_size\<close> members. The
  test of the code asks more. With one slice and a minimum of 2, \<open>[0, 0, 0, 1, 1]\<close>
  passes the test of the claim and fails that of the code, since slice 1 has 2 members and
  not more; with a minimum of 1, so does \<open>[0, 1, 1, 1]\<close>, since the background has one
  member only.
\<close>

theorem acceptance_not_spec:
  "accepts_spec [0, 0, 0, 1, 1] 1 2 \<and> \<not> satisfied [0, 0, 0, 1, 1] 1 2 \<and>
   accepts_spec [0, 1, 1, 1] 1 1 \<and> \<not> satisfied [0, 1, 1, 1] 1 1"
  by (simp add: accepts_spec_def satisfied_def)

text \<open>
  C2 as amended. A candidate is accepted exactly when it has \<open>num_slices + 1\<close> distinct
  values and every value in it, the background 0 included, occurs more than
  \<open>min_slice_size\<close> times. The retry loop returns a candidate that passes the test; a
  candidate that fails it is replaced by zeros and the loop runs again with the regions
  kept. So every \<open>Z\<close> that \<^verbatim>\<open>create_slices\<close> returns passes the test: it has one entry
  per point, its values are exactly \<open>0, ..., num_slices\<close>, and each of them has more than
  \<open>min_slice_size\<close> members. It is the outcome of a single pass that started from zeros:
  the regions of that pass are the last \<open>num_slices\<close> of the returned list, a point with
  id 0 lies in none of them, and a point with id \<open>j + 1\<close> lies in region \<open>j\<close> of the
  pass and in no later one.
\<close>

theorem create_slices_accepted:
  assumes "create_slices X Y L slice_source lf_regions num_slices min_slice_size min_a max_a g
             = Some (Inr (Z, regions, g'))"
  shows "satisfied Z num_slices min_slice_size \<and>
         (\<forall>C. satisfied C num_slices min_slice_size \<longleftrightarrow>
            card (set C) = num_slices + 1 \<and>
            (\<forall>v\<in>set C. min_slice_size < int (count_list C v))) \<and>
         length Z = length X \<and> set Z = {0..int num_slices} \<and>
         (\<forall>s\<in>{0..int num_slices}. min_slice_size < int (count_list Z s)) \<and>
         (\<exists>past new centers g0. regions = past @ new \<and> length new = num_slices \<and>
            slice_loop X centers min_a max_a 0 num_slices (replicate (length X) 0, past, g0)
              = Inr (Z, regions, g') \<and>
            (\<forall>p<length X.
               (Z ! p = 0 \<and>
                (\<forall>j<num_slices. contains (new ! j) (np_point (X ! p)) = Inr False)) \<or>
               (\<exists>j<num_slices. Z ! p = int j + 1 \<and>
                  contains (new ! j) (np_point (X ! p)) = Inr True \<and>
                  (\<forall>j'. j < j' \<and> j' < num_slices \<longrightarrow>
                     contains (new ! j') (np_point (X ! p)) = Inr False)))) \<and>
         (\<forall>Zs Rs gs centers g1 Z' R' g2.
            choose_centers X L slice_source lf_regions num_slices max_a gs = Inr (centers, g1) \<longrightarrow>
            slice_loop X centers min_a max_a 0 num_slices (Zs, Rs, g1) = Inr (Z', R', g2) \<longrightarrow>
            create_slices_loop X L slice_source lf_regions num_slices min_slice_size min_a max_a
              (Zs, Rs, gs) =
            (if satisfied Z' num_slices min_slice_size then Some (Inr (Z', R', g2))
             else create_slices_loop X L slice_source lf_regions num_slices min_slice_size
                    min_a max_a (replicate (length X) 0, R', g2)))"
proof -
  from create_slices_result [OF assms] have
    sat: "satisfied Z num_slices min_slice_size" and len: "length Z = length X" and
    pass: "\<exists>past new centers g0. regions = past @ new \<and> length new = num_slices \<and>
            slice_loop X centers min_a max_a 0 num_slices (replicate (length X) 0, past, g0)
              = Inr (Z, regions, g') \<and>
            (\<forall>p<length X.
               (Z ! p = 0 \<and>
                (\<forall>j<num_slices. contains (new ! j) (np_point (X ! p)) = Inr False)) \<or>
               (\<exists>j<num_slices. Z ! p = int j + 1 \<and>
                  contains (new ! j) (np_point (X ! p)) = Inr True \<and>
                  (\<forall>j'. j < j' \<and> j' < num_slices \<longrightarrow>
                     contains (new ! j') (np_point (X ! p)) = Inr False)))"
    by blast+
  from pass have pts: "\<forall>p<length X. Z ! p = 0 \<or> (\<exists>j<num_slices. Z ! p = int j + 1)"
    by blast
  have sub: "set Z \<subseteq> {0..int num_slices}"
  proof
    fix v assume "v \<in> set Z"
    then obtain p where "p < length Z" "Z ! p = v"
      by (auto simp: in_set_conv_nth)
    with pts len show "v \<in> {0..int num_slices}"
      by auto
  qed
  have "card (set Z) = card {0..int num_slices}"
    using sat by (simp add: satisfied_iff)
  with sub have eq: "set Z = {0..int num_slices}"
    by (intro card_subset_eq) simp_all
  have counts: "\<forall>s\<in>{0..int num_slices}. min_slice_size < int (count_list Z s)"
    using sat eq by (simp add: satisfied_iff)
  have test: "\<forall>C. satisfied C num_slices min_slice_size \<longleftrightarrow>
            card (set C) = num_slices + 1 \<and>
            (\<forall>v\<in>set C. min_slice_size < int (count_list C v))"
    using satisfied_iff by blast
  have step: "\<forall>Zs Rs gs centers g1 Z' R' g2.
            choose_centers X L slice_source lf_regions num_slices max_a gs = Inr (centers, g1) \<longrightarrow>
            slice_loop X centers min_a max_a 0 num_slices (Zs, Rs, g1) = Inr (Z', R', g2) \<longrightarrow>
            create_slices_loop X L slice_source lf_regions num_slices min_slice_size min_a max_a
              (Zs, Rs, gs) =
            (if satisfied Z' num_slices min_slice_size then Some (Inr (Z', R', g2))
             else create_slices_loop X L slice_source lf_regions num_slices min_slice_size
                    min_a max_a (replicate (length X) 0, R', g2))"
    using create_slices_loop_step by blast
  from sat test len eq counts pass step show ?thesis
    by (intro conjI)
qed

theorem create_slices_accepted_witness:
  "create_slices [(0, 0), (0, 10), (10, 0)] [2, 1, 2] [[0], [0], [0]] ''random'' None 2 0 1 1
     \<lparr>py_random = sconst 0, np_random = 0 ## 0 ## 0 ## 0 ## 0 ## 0 ## 1 ## 2 ## sconst 0,
        torch_random = sconst 0\<rparr>
   = Some (Inr ([0, 1, 2],
        [Ellipse (Np 0) (Np 0) (Py 1) (Py 1), Ellipse (Np 0) (Np 0) (Py 1) (Py 1),
         Ellipse (Np 0) (Np 10) (Py 1) (Py 1), Ellipse (Np 10) (Np 0) (Py 1) (Py 1)],
        \<lparr>py_random = sconst 0, np_random = sconst 0, torch_random = sconst 0\<rparr>)) \<and>
   satisfied [0, 1, 2] 2 0 \<and>
   length [0, 1, 2 :: int] = length [(0, 0), (0, 10), (10, 0) :: row] \<and>
   set [0, 1, 2] = {0..int 2} \<and>
   0 < int (count_list [0, 1, 2 :: int] 1) \<and>
   choose_centers [(0, 0), (0, 10), (10, 0)] [[0], [0], [0]] ''random'' None 2 1
     \<lparr>py_random = sconst 0, np_random = 0 ## 0 ## 0 ## 0 ## 0 ## 0 ## 1 ## 2 ## sconst 0,
        torch_random = sconst 0\<rparr>
   = Inr ([(Np 0, Np 0), (Np 0, Np 0)],
       \<lparr>py_random = sconst 0, np_random = 0 ## 0 ## 0 ## 0 ## 1 ## 2 ## sconst 0,
          torch_random = sconst 0\<rparr>) \<and>
   slice_loop [(0, 0), (0, 10), (10, 0)] [(Np 0, Np 0), (Np 0, Np 0)] 1 1 0 2
     ([0, 0, 0], [],
      \<lparr>py_random = sconst 0, np_random = 0 ## 0 ## 0 ## 0 ## 1 ## 2 ## sconst 0,
         torch_random = sconst 0\<rparr>)
   = Inr ([2, 0, 0], [Ellipse (Np 0) (Np 0) (Py 1) (Py 1), Ellipse (Np 0) (Np 0) (Py 1) (Py 1)],
       \<lparr>py_random = sconst 0, np_random = 1 ## 2 ## sconst 0, torch_random = sconst 0\<rparr>) \<and>
   \<not> satisfied [2, 0, 0] 2 0 \<and>
   create_slices_loop [(0, 0), (0, 10), (10, 0)] [[0], [0], [0]] ''random'' None 2 0 1 1
     ([0, 0, 0], [],
      \<lparr>py_random = sconst 0, np_random = 0 ## 0 ## 0 ## 0 ## 0 ## 0 ## 1 ## 2 ## sconst 0,
         torch_random = sconst 0\<rparr>) =
   create_slices_loop [(0, 0), (0, 10), (10, 0)] [[0], [0], [0]] ''random'' None 2 0 1 1
     (replicate (length [(0, 0), (0, 10), (10, 0) :: row]) 0,
      [Ellipse (Np 0) (Np 0) (Py 1) (Py 1), Ellipse (Np 0) (Np 0) (Py 1) (Py 1)],
      \<lparr>py_random = sconst 0, np_random = 1 ## 2 ## sconst 0, torch_random = sconst 0\<rparr>) \<and>
   contains (Ellipse (Np 0) (Np 10) (Py 1) (Py 1)) (np_point (0, 10)) = Inr True \<and>
   contains (Ellipse (Np 10) (Np 0) (Py 1) (Py 1)) (np_point (0, 10)) = Inr False"
proof -
  note acc = create_slices_accepted [OF retry_run]
  from acc have step: "\<forall>Zs Rs gs centers g1 Z' R' g2.
      choose_centers [(0, 0), (0, 10), (10, 0)] [[0], [0], [0]] ''random'' None 2 1 gs
        = Inr (centers, g1) \<longrightarrow>
      slice_loop [(0, 0), (0, 10), (10, 0)] centers 1 1 0 2 (Zs, Rs, g1) = Inr (Z', R', g2) \<longrightarrow>
      create_slices_loop [(0, 0), (0, 10), (10, 0)] [[0], [0], [0]] ''random'' None 2 0 1 1
        (Zs, Rs, gs) =
      (if satisfied Z' 2 0 then Some (Inr (Z', R', g2))
       else create_slices_loop [(0, 0), (0, 10), (10, 0)] [[0], [0], [0]] ''random'' None 2 0 1 1
              (replicate (length [(0, 0), (0, 10), (10, 0) :: row]) 0, R', g2))"
    by blast
  have retried: "create_slices_loop [(0, 0), (0, 10), (10, 0)] [[0], [0], [0]] ''random'' None 2 0 1 1
     ([0, 0, 0], [],
      \<lparr>py_random = sconst 0, np_random = 0 ## 0 ## 0 ## 0 ## 0 ## 0 ## 1 ## 2 ## sconst 0,
         torch_random = sconst 0\<rparr>) =
   create_slices_loop [(0, 0), (0, 10), (10, 0)] [[0], [0], [0]] ''random'' None 2 0 1 1
     (replicate (length [(0, 0), (0, 10), (10, 0) :: row]) 0,
      [Ellipse (Np 0) (Np 0) (Py 1) (Py 1), Ellipse (Np 0) (Np 0) (Py 1) (Py 1)],
      \<lparr>py_random = sconst 0, np_random = 1 ## 2 ## sconst 0, torch_random = sconst 0\<rparr>)"
    using step retry_first_pass by (simp del: replicate.simps length_Cons list.size)
  from acc have "satisfied [0, 1, 2] 2 0 \<and>
      length [0, 1, 2 :: int] = length [(0, 0), (0, 10), (10, 0) :: row] \<and>
      set [0, 1, 2] = {0..int 2}"
    by blast
  with retry_run retry_first_pass retried show ?thesis
    by (simp add: truediv_def np_point_def del: replicate.simps)
qed

text \<open>
  C3. The claim: in every \<open>(Z, regions)\<close> that \<^verbatim>\<open>create_slices\<close> returns, a point with
  slice id \<open>s > 0\<close> lies in \<open>regions[s - 1]\<close>. A failed pass resets \<open>Z\<close> and keeps the
  regions it appended, so after a retry the regions of the accepted pass are the last
  \<open>num_slices\<close> of the list (lemma \<open>create_slices_result\<close>) and \<open>regions[s - 1]\<close> belongs
  to the first, failed pass. On three points and two slices, with both centers of the
  first pass on point 0 and those of the second pass on points 1 and 2: point 1 has slice
  id 1 and lies outside \<open>regions[0]\<close>.
\<close>

theorem create_slices_stale_regions:
  "create_slices [(0, 0), (0, 10), (10, 0)] [2, 1, 2] [[0], [0], [0]] ''random'' None 2 0 1 1
     \<lparr>py_random = sconst 0, np_random = 0 ## 0 ## 0 ## 0 ## 0 ## 0 ## 1 ## 2 ## sconst 0,
        torch_random = sconst 0\<rparr>
   = Some (Inr ([0, 1, 2],
        [Ellipse (Np 0) (Np 0) (Py 1) (Py 1), Ellipse (Np 0) (Np 0) (Py 1) (Py 1),
         Ellipse (Np 0) (Np 10) (Py 1) (Py 1), Ellipse (Np 10) (Np 0) (Py 1) (Py 1)],
        \<lparr>py_random = sconst 0, np_random = sconst 0, torch_random = sconst 0\<rparr>)) \<and>
   [0, 1, 2 :: int] ! 1 = 1 \<and>
   contains ([Ellipse (Np 0) (Np 0) (Py 1) (Py 1), Ellipse (Np 0) (Np 0) (Py 1) (Py 1),
              Ellipse (Np 0) (Np 10) (Py 1) (Py 1), Ellipse (Np 10) (Np 0) (Py 1) (Py 1)] ! (1 - 1))
     (np_point ([(0, 0), (0, 10), (10, 0)] ! 1)) = Inr False"
  using retry_run by (simp add: truediv_def np_point_def)

subsection \<open>Runs of the script\<close>

text \<open>\<open>ceil_sqrt n\<close> is the ceiling of the square root of \<open>n\<close>.\<close>

lemma ceil_sqrt_spec: "n \<le> ceil_sqrt n * ceil_sqrt n \<and> (\<forall>s. n \<le> s * s \<longrightarrow> ceil_sqrt n \<le> s)"
proof -
  let ?P = "\<lambda>s. s * s < n"
  let ?xs = "[0..<Suc n]"
  let ?k = "length (takeWhile ?P ?xs)"
  have le: "?k \<le> length ?xs" by (rule length_takeWhile_le)
  have "\<not> ?P n"
    by (cases n) auto
  then have "\<not> (\<forall>x\<in>set ?xs. ?P x)"
    by (metis atLeastLessThan_iff lessI set_upt zero_le)
  then have "takeWhile ?P ?xs \<noteq> ?xs"
    by (simp only: takeWhile_eq_all_conv not_False_eq_True)
  then have "?k \<noteq> length ?xs"
    by (metis takeWhile_eq_take take_all order_refl)
  with le have lt: "?k < length ?xs" by simp
  then have "\<not> ?P (?xs ! ?k)"
    by (rule nth_length_takeWhile)
  moreover have "?xs ! ?k = ?k"
    using lt by (metis add_0 length_upt nth_upt diff_zero)
  ultimately have a: "n \<le> ?k * ?k" by simp
  have b: "\<forall>s. n \<le> s * s \<longrightarrow> ?k \<le> s"
  proof (intro allI impI, rule ccontr)
    fix s assume s: "n \<le> s * s" and "\<not> ?k \<le> s"
    then have sk: "s < ?k" by simp
    then have "takeWhile ?P ?xs ! s \<in> set (takeWhile ?P ?xs)"
      by (rule nth_mem)
    then have "?P (takeWhile ?P ?xs ! s)"
      by (rule set_takeWhileD [THEN conjunct2])
    then have "?P (?xs ! s)"
      using sk by (simp only: takeWhile_nth)
    moreover have "?xs ! s = s"
      using sk lt by (metis add_0 length_upt nth_upt diff_zero less_trans)
    ultimately show False using s by simp
  qed
  show ?thesis
    unfolding ceil_sqrt_def using a b by blast
qed

lemma ceil_sqrt_4: "ceil_sqrt 4 = 2"
  by code_simp

lemma linspace_2: "linspace lo hi 2 = [lo, hi]"
  by (simp add: linspace_def numeral_2_eq_2)

lemma grid_4:
  "create_points (Rectangle (Py 0) (Py 10) (Py 0) (Py 10)) 4 False g =
     Inr ([(0, 0), (0, 10), (10, 0), (10, 10)], g)"
  by (simp add: create_points_def ceil_sqrt_4 linspace_2)

lemma unseeded_run_0:
  "generate_dataset sd 2 1 4 ex_L_kwargs False ex_Y_kwargs ex_Z_kwargs False ''random'' False
     (Some 0) (const_rng 0)
   = Some (Inr \<lparr>ds_L = [[1], [0], [0], [0]], ds_X = [(0, 0), (0, 10), (10, 0), (10, 10)],
        ds_Y = [1, 2, 2, 2], ds_Z = [1, 0, 0, 0], ds_lfs_targeting_regions = None\<rparr>)"
  unfolding generate_dataset_def create_slices_def
  apply (subst create_slices_loop.simps)
  apply (simp add: set_random_seed_def Rectangle_init_def grid_4 create_labels_def label_cluster_def
      create_lfs_def create_lf_def Circle_init_def transpose_votes_def cons_vote_def flip_def
      np_uniform_vec_2 choose_centers_def satisfied_def rng_eval)
  done


lemma unseeded_run_1:
  "generate_dataset sd 2 1 4 ex_L_kwargs False ex_Y_kwargs ex_Z_kwargs False ''random'' False
     (Some 0) (const_rng 1)
   = Some (Inr \<lparr>ds_L = [[0], [1], [0], [0]], ds_X = [(0, 0), (0, 10), (10, 0), (10, 10)],
        ds_Y = [2, 1, 2, 2], ds_Z = [0, 1, 0, 0], ds_lfs_targeting_regions = None\<rparr>)"
  unfolding generate_dataset_def create_slices_def
  apply (subst create_slices_loop.simps)
  apply (simp add: set_random_seed_def Rectangle_init_def grid_4 create_labels_def label_cluster_def
      create_lfs_def create_lf_def Circle_init_def transpose_votes_def cons_vote_def flip_def
      np_uniform_vec_2 choose_centers_def satisfied_def rng_eval)
  done

lemma seeded_run_1:
  "generate_dataset ex_seeders 2 1 4 ex_L_kwargs False ex_Y_kwargs ex_Z_kwargs False ''random'' False
     (Some 1) g
   = Some (Inr \<lparr>ds_L = [[0], [1], [0], [0]], ds_X = [(0, 0), (0, 10), (10, 0), (10, 10)],
        ds_Y = [2, 1, 2, 2], ds_Z = [0, 1, 0, 0], ds_lfs_targeting_regions = None\<rparr>)"
  unfolding generate_dataset_def create_slices_def
  apply (subst create_slices_loop.simps)
  apply (simp add: set_random_seed_def Rectangle_init_def grid_4 create_labels_def label_cluster_def
      create_lfs_def create_lf_def Circle_init_def transpose_votes_def cons_vote_def flip_def
      np_uniform_vec_2 choose_centers_def satisfied_def rng_eval)
  done

text \<open>
  C7. The claim: for every seed, two runs of \<^verbatim>\<open>generate_dataset\<close> with the same seed and
  the same parameters return the same vote matrix, labels and slices. The script seeds
  the generators under \<^verbatim>\<open>if seed:\<close>, so with the seed 0 the generators keep the state
  they had: two runs with seed 0 and the same parameters, started in two generator states,
  return different vote matrices, labels and slices.
\<close>

theorem seed_zero_not_deterministic:
  "generate_dataset ex_seeders 2 1 4 ex_L_kwargs False ex_Y_kwargs ex_Z_kwargs False ''random''
     False (Some 0) (const_rng 0)
   = Some (Inr \<lparr>ds_L = [[1], [0], [0], [0]], ds_X = [(0, 0), (0, 10), (10, 0), (10, 10)],
        ds_Y = [1, 2, 2, 2], ds_Z = [1, 0, 0, 0], ds_lfs_targeting_regions = None\<rparr>) \<and>
   generate_dataset ex_seeders 2 1 4 ex_L_kwargs False ex_Y_kwargs ex_Z_kwargs False ''random''
     False (Some 0) (const_rng 1)
   = Some (Inr \<lparr>ds_L = [[0], [1], [0], [0]], ds_X = [(0, 0), (0, 10), (10, 0), (10, 10)],
        ds_Y = [2, 1, 2, 2], ds_Z = [0, 1, 0, 0], ds_lfs_targeting_regions = None\<rparr>) \<and>
   [[1], [0], [0], [0]] \<noteq> [[0], [1], [0], [0 :: int]] \<and>
   [1, 2, 2, 2] \<noteq> [2, 1, 2, 2 :: int] \<and>
   [1, 0, 0, 0] \<noteq> [0, 1, 0, 0 :: int]"
  using unseeded_run_0 [of ex_seeders] unseeded_run_1 [of ex_seeders] by simp

text \<open>
  C7 as amended. For every parameter setting and every seed other than 0, two runs of
  \<^verbatim>\<open>generate_dataset\<close> with that seed give the same result, whatever the state of the
  generators before each run: the same dataset, the same error, or no result in both.
\<close>

theorem generate_dataset_deterministic:
  assumes "seed \<noteq> 0"
  shows "generate_dataset sd k m n Lk random Yk Zk unipolar slice_source plotting (Some seed) g1 =
         generate_dataset sd k m n Lk random Yk Zk unipolar slice_source plotting (Some seed) g2"
  using assms by (simp add: generate_dataset_def set_random_seed_def)

theorem generate_dataset_deterministic_witness:
  "(1 :: int) \<noteq> 0 \<and>
   generate_dataset ex_seeders 2 1 4 ex_L_kwargs False ex_Y_kwargs ex_Z_kwargs False ''random''
     False (Some 1) (const_rng 0) =
   generate_dataset ex_seeders 2 1 4 ex_L_kwargs False ex_Y_kwargs ex_Z_kwargs False ''random''
     False (Some 1) (const_rng 7) \<and>
   generate_dataset ex_seeders 2 1 4 ex_L_kwargs False ex_Y_kwargs ex_Z_kwargs False ''random''
     False (Some 1) (const_rng 7)
   = Some (Inr \<lparr>ds_L = [[0], [1], [0], [0]], ds_X = [(0, 0), (0, 10), (10, 0), (10, 10)],
        ds_Y = [2, 1, 2, 2], ds_Z = [0, 1, 0, 0], ds_lfs_targeting_regions = None\<rparr>)"
proof -
  have nz: "(1 :: int) \<noteq> 0" by simp
  from generate_dataset_deterministic [OF nz, of ex_seeders 2 1 4 ex_L_kwargs False ex_Y_kwargs
      ex_Z_kwargs False "''random''" False "const_rng 0" "const_rng 7"]
    seeded_run_1 [of "const_rng 7"]
  show ?thesis by simp
qed

text \<open>
  C9. \<^verbatim>\<open>generate_dataset\<close> seeds the generators only for a truthy seed: with no seed and
  with the seed 0 the generator state is left as it is, while a nonzero seed that numpy
  accepts replaces the state of all three generators. A run with seed 0 is the run with no
  seed, and two runs with seed 0 started in different generator states differ.
\<close>

theorem seed_zero_unseeded:
  "set_random_seed sd None g = Inr g \<and>
   set_random_seed sd (Some 0) g = Inr g \<and>
   (seed \<noteq> 0 \<and> 0 \<le> seed \<and> seed < 2 ^ 32 \<longrightarrow>
      set_random_seed sd (Some seed) g =
        Inr \<lparr>py_random = random_seed sd seed, np_random = np_random_seed sd seed,
             torch_random = torch_manual_seed sd seed\<rparr>) \<and>
   generate_dataset sd k m n Lk random Yk Zk unipolar slice_source plotting (Some 0) g =
     generate_dataset sd k m n Lk random Yk Zk unipolar slice_source plotting None g \<and>
   generate_dataset sd 2 1 4 ex_L_kwargs False ex_Y_kwargs ex_Z_kwargs False ''random'' False
     (Some 0) (const_rng 0) \<noteq>
   generate_dataset sd 2 1 4 ex_L_kwargs False ex_Y_kwargs ex_Z_kwargs False ''random'' False
     (Some 0) (const_rng 1)"
  using unseeded_run_0 [of sd] unseeded_run_1 [of sd]
  by (simp add: generate_dataset_def set_random_seed_def)

theorem seed_zero_unseeded_witness:
  "set_random_seed ex_seeders (Some 0) (const_rng 3) = Inr (const_rng 3) \<and>
   set_random_seed ex_seeders (Some 1) (const_rng 3) = Inr (const_rng 1) \<and>
   generate_dataset ex_seeders 2 1 4 ex_L_kwargs False ex_Y_kwargs ex_Z_kwargs False ''random''
     False (Some 0) (const_rng 0) \<noteq>
   generate_dataset ex_seeders 2 1 4 ex_L_kwargs False ex_Y_kwargs ex_Z_kwargs False ''random''
     False (Some 0) (const_rng 1)"
  using seed_zero_unseeded [of ex_seeders "const_rng 3" 1]
  by simp



end
